theory Spec2Isabelle
  imports Complex_Main
begin

section \<open>JavaScript strings as used by the middleware\<close>

text \<open>
  A JavaScript string is modelled as a \<^typ>\<open>string\<close> (a list of characters), a
  character standing for the code unit of the same number below 256: Node reads the
  request line and the header values of a request as Latin-1, so their code units are
  all of this kind. A value that may be \<^verbatim>\<open>undefined\<close> is a \<^typ>\<open>string option\<close>, and
  \<^verbatim>\<open>undefined\<close> and the empty string are the falsy ones.
\<close>

definition truthy :: "string option \<Rightarrow> bool" where
  "truthy v = (case v of None \<Rightarrow> False | Some s \<Rightarrow> s \<noteq> [])"

text \<open>
  \<^verbatim>\<open>String.prototype.indexOf\<close>: the position of the first occurrence of the
  search string; the empty search string occurs at position 0.
\<close>

fun indexOf :: "string \<Rightarrow> string \<Rightarrow> nat option" where
  "indexOf [] pat = (if pat = [] then Some 0 else None)"
| "indexOf (c # cs) pat =
     (if take (length pat) (c # cs) = pat then Some 0
      else map_option Suc (indexOf cs pat))"

text \<open>
  The replacement text of \<^verbatim>\<open>String.prototype.replace\<close> is a template
  (ECMAScript GetSubstitution). With a string as search value there are no capture
  groups, so the only patterns are \<^verbatim>\<open>$$\<close> (a dollar sign), \<^verbatim>\<open>$&\<close> (the matched
  text), dollar-backquote (the text before the match) and dollar-quote (the text after
  it); every other character, and a dollar sign followed by anything else, is copied.
\<close>

fun getSubstitution :: "string \<Rightarrow> string \<Rightarrow> string \<Rightarrow> string \<Rightarrow> string" where
  "getSubstitution matched pre post [] = []"
| "getSubstitution matched pre post [c] = [c]"
| "getSubstitution matched pre post (c # d # t) =
     (if c = CHR ''$'' \<and> d = CHR ''$'' then CHR ''$'' # getSubstitution matched pre post t
      else if c = CHR ''$'' \<and> d = CHR ''&'' then matched @ getSubstitution matched pre post t
      else if c = CHR ''$'' \<and> d = CHR 0x60 then pre @ getSubstitution matched pre post t
      else if c = CHR ''$'' \<and> d = CHR 0x27 then post @ getSubstitution matched pre post t
      else c # getSubstitution matched pre post (d # t))"

text \<open>
  \<^verbatim>\<open>str.replace(searchString, replaceValue)\<close> with two strings: only the first
  occurrence of the search string is replaced, and a string without an occurrence is
  returned as it is.
\<close>

definition string_replace :: "string \<Rightarrow> string \<Rightarrow> string \<Rightarrow> string" where
  "string_replace str pat repl =
     (case indexOf str pat of
        None \<Rightarrow> str
      | Some i \<Rightarrow>
          take i str
          @ getSubstitution pat (take i str) (drop (i + length pat) str) repl
          @ drop (i + length pat) str)"


text \<open>
  A JavaScript number that \<^verbatim>\<open>parseInt\<close> can return: \<^verbatim>\<open>NaN\<close>, an integer that a
  double holds exactly, or an infinity. \<open>roundToDouble\<close> is the conversion of a natural
  number with a sign to the nearest double (ties to the even significand): every
  integer up to 2 to the power 53 is itself, a larger one keeps the 53 leading bits of
  its rounding, and what rounds to 2 to the power 1024 or more is infinite. Negative
  zero is not told from zero (\<^verbatim>\<open>-0 || 0\<close> is \<^verbatim>\<open>0\<close>).
\<close>

datatype number = NaN | Num int | PosInfinity | NegInfinity

fun bitLength :: "nat \<Rightarrow> nat" where
  "bitLength n = (if n = 0 then 0 else Suc (bitLength (n div 2)))"

declare bitLength.simps [simp del]

definition roundToDouble :: "bool \<Rightarrow> nat \<Rightarrow> number" where
  "roundToDouble neg a =
     (if a \<le> 2 ^ 53 then Num (if neg then - int a else int a)
      else
        (let e = bitLength a - 53;
             q = a div 2 ^ e;
             r = a mod 2 ^ e;
             q' = (if 2 ^ e < 2 * r \<or> (2 * r = 2 ^ e \<and> odd q) then q + 1 else q);
             v = q' * 2 ^ e
         in if 2 ^ 1024 \<le> v then (if neg then NegInfinity else PosInfinity)
            else Num (if neg then - int v else int v)))"

text \<open>
  \<^verbatim>\<open>parseInt(string)\<close> without a radix: leading white space is skipped, then an
  optional sign, then an optional \<^verbatim>\<open>0x\<close> or \<^verbatim>\<open>0X\<close> (which selects radix 16), then
  the longest run of digits of the radix. No digit at all gives \<^verbatim>\<open>NaN\<close>; what
  follows the digits is ignored; the value of the digits is rounded to a double. The
  white space of JavaScript below code unit 256 is tab, line feed, vertical tab, form
  feed, carriage return, space and the no-break space.
\<close>

definition isWhiteSpace :: "char \<Rightarrow> bool" where
  "isWhiteSpace c =
     (c \<in> set [CHR 0x09, CHR 0x0A, CHR 0x0B, CHR 0x0C, CHR 0x0D, CHR 0x20, CHR 0xA0])"

definition digitValue :: "char \<Rightarrow> nat option" where
  "digitValue c =
     (let n = (of_char c :: nat) in
      if 48 \<le> n \<and> n \<le> 57 then Some (n - 48)
      else if 97 \<le> n \<and> n \<le> 122 then Some (n - 87)
      else if 65 \<le> n \<and> n \<le> 90 then Some (n - 55)
      else None)"

definition isDigit :: "nat \<Rightarrow> char \<Rightarrow> bool" where
  "isDigit R c = (case digitValue c of None \<Rightarrow> False | Some d \<Rightarrow> d < R)"

definition digitsValue :: "nat \<Rightarrow> string \<Rightarrow> nat" where
  "digitsValue R Z =
     foldl (\<lambda>acc c. acc * R + (case digitValue c of None \<Rightarrow> 0 | Some d \<Rightarrow> d)) 0 Z"

definition parseInt :: "string \<Rightarrow> number" where
  "parseInt str =
     (let s = dropWhile isWhiteSpace str;
          neg = (take 1 s = ''-'');
          s1 = (if take 1 s = ''+'' \<or> take 1 s = ''-'' then drop 1 s else s);
          hex = (take 2 s1 = ''0x'' \<or> take 2 s1 = ''0X'');
          R = (if hex then 16 else 10);
          s2 = (if hex then drop 2 s1 else s1);
          Z = takeWhile (isDigit R) s2
      in if Z = [] then NaN else roundToDouble neg (digitsValue R Z))"

text \<open>
  \<^verbatim>\<open>parseInt(header) || 0\<close>, where the header is the result of
  \<^verbatim>\<open>req.get('content-length')\<close> or \<^verbatim>\<open>res.get('Content-Length')\<close>: a string, or
  \<^verbatim>\<open>undefined\<close> (which \<^verbatim>\<open>parseInt\<close> reads as the text "undefined"). \<^verbatim>\<open>NaN\<close> and
  0 are falsy, so both give 0; an infinity is truthy and stays.
\<close>

definition parseIntOr0 :: "string option \<Rightarrow> number" where
  "parseIntOr0 header =
     (case parseInt (case header of None \<Rightarrow> ''undefined'' | Some s \<Rightarrow> s) of
        NaN \<Rightarrow> Num 0
      | Num n \<Rightarrow> Num n
      | PosInfinity \<Rightarrow> PosInfinity
      | NegInfinity \<Rightarrow> NegInfinity)"

section \<open>Requests, responses and the recorded observations\<close>

text \<open>
  The fields of the request and the response that \<^verbatim>\<open>src/metrics-middleware.js\<close>
  reads. Every field the source tests for presence is optional here.
  \<^item> \<open>params\<close> is the object \<^verbatim>\<open>req.params\<close> as the list of its own properties in
    the order \<^verbatim>\<open>Object.keys\<close> enumerates them (names distinct); a value is a string
    or \<^verbatim>\<open>undefined\<close>.
  \<^item> \<open>res\<close> is the back reference \<^verbatim>\<open>req.res\<close> that express puts on the request.
  \<^item> \<open>req_content_length\<close> and \<open>res_content_length\<close> are what
    \<^verbatim>\<open>req.get('content-length')\<close> and \<^verbatim>\<open>res.get('Content-Length')\<close> return.
  \<^item> \<open>metrics\<close> is \<^verbatim>\<open>req.metrics\<close>, attached by the middleware at the start of
    the request: the running timer of the duration histogram (its start labels and
    start time, in seconds) and the parsed request size.
  An exception is a value of type \<open>error\<close>: the \<^verbatim>\<open>TypeError\<close> of a property read
  or a method call on \<^verbatim>\<open>undefined\<close>, and the error with which the metrics registry
  refuses a second metric of a name it holds.
\<close>

datatype error = TypeError | RegistryError string

record express_route =
  path :: string

record swagger_info =
  apiPath :: "string option"

record response =
  statusCode :: int
  res_content_length :: "string option"

record running_timer =
  timer_method :: string
  timer_start :: rat

record req_metrics =
  timer :: running_timer
  contentLength :: number

type_synonym params_object = "(string \<times> string option) list"

record request =
  req_method :: string
  url :: "string option"
  baseUrl :: "string option"
  route :: "express_route option"
  swagger :: "swagger_info option"
  params :: "params_object option"
  res :: "response option"
  req_content_length :: "string option"
  metrics :: "req_metrics option"

text \<open>
  The three histograms are process-wide objects of the metrics library. Each is
  modelled by the list of observations made on it, oldest first; an observation is a
  label set \<^verbatim>\<open>{method, route, code}\<close> and a value.
  \<^verbatim>\<open>histogram.observe(labels, value)\<close> of the library records a value that is a
  finite number and throws a \<^verbatim>\<open>TypeError\<close> for any other.
\<close>

record labels =
  label_method :: string
  label_route :: string
  label_code :: int

record histograms =
  responseTimeHistogram :: "(labels \<times> rat) list"
  requestSizeHistogram :: "(labels \<times> int) list"
  responseSizeHistogram :: "(labels \<times> int) list"

definition observe :: "labels \<Rightarrow> number \<Rightarrow> (labels \<times> int) list \<Rightarrow> error + (labels \<times> int) list" where
  "observe l v observations =
     (case v of
        Num n \<Rightarrow> Inr (observations @ [(l, n)])
      | NaN \<Rightarrow> Inl TypeError
      | PosInfinity \<Rightarrow> Inl TypeError
      | NegInfinity \<Rightarrow> Inl TypeError)"

section \<open>The route classifier\<close>

text \<open>
  The functions \<^verbatim>\<open>_getRoute\<close> and \<^verbatim>\<open>_handleResponse\<close> of the source are
  \<open>getRoute\<close> and \<open>handleResponse\<close> here (a name cannot start with an underscore).

  Lines 118 to 130 of \<^verbatim>\<open>_getRoute\<close>: the value of the variable \<^verbatim>\<open>route\<close> after
  the chain of conditions. It starts as \<^verbatim>\<open>req.baseUrl\<close> and stays so when no branch
  applies, so it can be \<^verbatim>\<open>undefined\<close>.
\<close>

definition selectRoute :: "request \<Rightarrow> string option" where
  "selectRoute req =
     (case swagger req of
        Some sw \<Rightarrow> apiPath sw
      | None \<Rightarrow>
          if route req \<noteq> None \<and> truthy (baseUrl req) then
            (case (route req, baseUrl req) of
               (Some rt, Some b) \<Rightarrow> if path rt \<noteq> ''/'' then Some (b @ path rt) else Some b
             | _ \<Rightarrow> baseUrl req)
          else if truthy (url req) \<and> \<not> truthy (baseUrl req) then
            (case route req of
               Some rt \<Rightarrow> Some (path rt)
             | None \<Rightarrow> url req)
          else baseUrl req)"

text \<open>
  Lines 133 to 137: for each own property name of \<^verbatim>\<open>req.params\<close>, in order,
  \<^verbatim>\<open>route = route.replace(req.params[paramName], ':' + paramName)\<close>. The call fails
  with a \<^verbatim>\<open>TypeError\<close> when \<^verbatim>\<open>route\<close> is \<^verbatim>\<open>undefined\<close>. A value that is
  \<^verbatim>\<open>undefined\<close> is converted to the search string "undefined".
\<close>

definition paramValue :: "params_object \<Rightarrow> string \<Rightarrow> string" where
  "paramValue ps paramName =
     (case map_of ps paramName of
        Some (Some v) \<Rightarrow> v
      | Some None \<Rightarrow> ''undefined''
      | None \<Rightarrow> ''undefined'')"

fun replaceParams :: "params_object \<Rightarrow> string list \<Rightarrow> string option \<Rightarrow> error + string option" where
  "replaceParams ps [] r = Inr r"
| "replaceParams ps (paramName # names) None = Inl TypeError"
| "replaceParams ps (paramName # names) (Some r) =
     replaceParams ps names
       (Some (string_replace r (paramValue ps paramName) (CHR '':'' # paramName)))"

text \<open>
  \<^verbatim>\<open>_getRoute(req)\<close>: the selection, the replacement of parameter values when
  \<^verbatim>\<open>typeof req.params === 'object'\<close>, and last the guard of line 142: without
  \<^verbatim>\<open>req.route\<close>, and with a response on the request whose status code is 404, the
  result is \<^verbatim>\<open>undefined\<close>.
\<close>

definition getRoute :: "request \<Rightarrow> error + string option" where
  "getRoute req =
     (case (case params req of
              None \<Rightarrow> Inr (selectRoute req)
            | Some ps \<Rightarrow> replaceParams ps (map fst ps) (selectRoute req)) of
        Inl e \<Rightarrow> Inl e
      | Inr r \<Rightarrow>
          if route req = None
             \<and> (case res req of None \<Rightarrow> False | Some rs \<Rightarrow> statusCode rs = 404)
          then Inr None
          else Inr r)"

section \<open>Recording at the end of a request\<close>

text \<open>
  \<^verbatim>\<open>_handleResponse(req, res)\<close>. When the route is truthy it observes the request
  size, stops the timer (the duration is observed with the timer's start labels merged
  with \<^verbatim>\<open>{route, code}\<close>; \<open>now\<close> is the clock at that moment) and observes the
  response size. The result is the exception that left the function, if any, and the
  histograms as the function left them: an exception from \<^verbatim>\<open>_getRoute\<close>, from
  reading \<^verbatim>\<open>req.metrics.contentLength\<close> when \<^verbatim>\<open>req.metrics\<close> is missing or from
  the first \<^verbatim>\<open>observe\<close> comes before anything is recorded, one from the last
  \<^verbatim>\<open>observe\<close> after the request size and the duration were recorded.
\<close>

definition handleResponse ::
  "request \<Rightarrow> response \<Rightarrow> rat \<Rightarrow> histograms \<Rightarrow> error option \<times> histograms" where
  "handleResponse req rs now h =
     (let responseLength = parseIntOr0 (res_content_length rs) in
      case getRoute req of
        Inl e \<Rightarrow> (Some e, h)
      | Inr r \<Rightarrow>
          (case r of
             None \<Rightarrow> (None, h)
           | Some rt \<Rightarrow>
               if rt = [] then (None, h)
               else
                 (case metrics req of
                    None \<Rightarrow> (Some TypeError, h)
                  | Some m \<Rightarrow>
                      (case observe \<lparr>label_method = req_method req, label_route = rt,
                                     label_code = statusCode rs\<rparr>
                              (contentLength m) (requestSizeHistogram h) of
                         Inl e \<Rightarrow> (Some e, h)
                       | Inr requestSizes \<Rightarrow>
                           (let h2 = h\<lparr>requestSizeHistogram := requestSizes,
                                       responseTimeHistogram := responseTimeHistogram h @
                                         [(\<lparr>label_method = timer_method (timer m),
                                            label_route = rt, label_code = statusCode rs\<rparr>,
                                           now - timer_start (timer m))]\<rparr>
                            in case observe \<lparr>label_method = req_method req, label_route = rt,
                                              label_code = statusCode rs\<rparr>
                                       responseLength (responseSizeHistogram h) of
                                 Inl e \<Rightarrow> (Some e, h2)
                               | Inr responseSizes \<Rightarrow>
                                   (None, h2\<lparr>responseSizeHistogram := responseSizes\<rparr>))))))"

section \<open>The middleware\<close>

text \<open>
  The metrics library is a collaborator: \<open>contentType\<close>, \<open>register_metrics\<close> and
  \<open>getMetricsAsJSON\<close> stand for \<^verbatim>\<open>Prometheus.register.contentType\<close>, the text that
  \<^verbatim>\<open>Prometheus.register.metrics()\<close> renders and the array of metric records that
  \<^verbatim>\<open>Prometheus.register.getMetricsAsJSON()\<close> returns when the request arrives.
\<close>

record 'j prometheus_register =
  contentType :: string
  register_metrics :: string
  getMetricsAsJSON :: "'j list"

datatype 'j body = EndBody string | JsonBody "'j list"

text \<open>
  What \<^verbatim>\<open>middleware(req, res, next)\<close> does with a request. \<open>Responded\<close>: the
  response was sent with these headers set and this body, and the function returned
  without starting a timer, without a \<^verbatim>\<open>finish\<close> listener and without calling
  \<^verbatim>\<open>next\<close>. \<open>Next\<close>: \<^verbatim>\<open>req.metrics\<close> was attached, the listener that calls
  \<^verbatim>\<open>_handleResponse\<close> was registered on the response and \<^verbatim>\<open>next()\<close> was called with
  the request as given here.
\<close>

datatype 'j outcome =
  Responded "(string \<times> string) list" "'j body"
| Next request

text \<open>
  \<open>metricsRoute\<close> is the module variable of that name, assigned by the exported
  factory before it returns this function; \<open>now\<close> is the clock when the timer starts.
\<close>

definition middleware :: "'j prometheus_register \<Rightarrow> string \<Rightarrow> request \<Rightarrow> rat \<Rightarrow> 'j outcome" where
  "middleware P metricsRoute req now =
     (if url req = Some metricsRoute then
        Responded [(''Content-Type'', contentType P)] (EndBody (register_metrics P))
      else if url req = Some (metricsRoute @ ''.json'') then
        Responded [] (JsonBody (getMetricsAsJSON P))
      else
        Next (req\<lparr>metrics := Some \<lparr>timer = \<lparr>timer_method = req_method req, timer_start = now\<rparr>,
                                     contentLength = parseIntOr0 (req_content_length req)\<rparr>\<rparr>))"

text \<open>
  One request from its arrival to the \<^verbatim>\<open>finish\<close> event of its response. The rest of
  the service is \<open>downstream\<close>: given the request the middleware passed on, it yields
  the request as the host framework left it (route, parameters, base path resolved) and
  the response that was sent, or \<^const>\<open>None\<close> when no response is ever finished. The
  listener then runs \<^const>\<open>handleResponse\<close> at time \<open>t1\<close>. The result is as for
  \<^const>\<open>handleResponse\<close>: the exception raised in the listener, if any, and the
  histograms afterwards.
\<close>

definition requestLifecycle ::
  "'j prometheus_register \<Rightarrow> string \<Rightarrow> request \<Rightarrow> rat \<Rightarrow>
   (request \<Rightarrow> (request \<times> response) option) \<Rightarrow> rat \<Rightarrow> histograms \<Rightarrow>
   error option \<times> histograms" where
  "requestLifecycle P metricsRoute req t0 downstream t1 h =
     (case middleware P metricsRoute req t0 of
        Responded hs b \<Rightarrow> (None, h)
      | Next req1 \<Rightarrow>
          (case downstream req1 of
             None \<Rightarrow> (None, h)
           | Some (req2, rs) \<Rightarrow> handleResponse req2 rs t1 h))"

section \<open>The exported factory\<close>

text \<open>
  The module keeps the names of its four metrics and the prefix of the default metrics
  in the mutable object \<^verbatim>\<open>metricNames\<close> (lines 9 to 15).
\<close>

record metric_names =
  http_request_duration_seconds :: string
  app_version :: string
  http_request_size_bytes :: string
  http_response_size_bytes :: string
  defaultMetricsPrefix :: string

text \<open>
  A metric definition of the registry: its name, help text, label names and kind (a
  histogram carries its buckets), and for the version gauge the value set on it with
  its label values. A label value of the gauge is the version string, or the number
  that \<^verbatim>\<open>Number\<close> makes of one dot-separated segment of it (kept as the segment's
  text), or \<^verbatim>\<open>undefined\<close> when the version has no such segment.
\<close>

datatype metric_kind = Gauge | Histogram "rat list"

datatype label_value = Str string | NumberOf string | Undefined

record metric =
  metric_name :: string
  metric_help :: string
  labelNames :: "string list"
  kind :: metric_kind
  gauge_values :: "(label_value list \<times> int) list"

text \<open>
  The options of the factory. \<open>useUniqueHistogramName\<close> is \<^const>\<open>True\<close> exactly when
  the option is the boolean \<^verbatim>\<open>true\<close> (the source compares with \<^verbatim>\<open>===\<close>). The name and
  the version of the host package are read by \<^verbatim>\<open>pkginfo\<close> from its
  \<^verbatim>\<open>package.json\<close>.
\<close>

record options =
  metricsPath :: "string option"
  defaultMetricsInterval :: "int option"
  durationBuckets :: "rat list option"
  requestSizeBuckets :: "rat list option"
  responseSizeBuckets :: "rat list option"
  useUniqueHistogramName :: bool

record package_info =
  pkg_name :: string
  pkg_version :: string

text \<open>
  The state of the module and of the registry between two calls of the factory.
  \<open>register\<close> holds the metrics registered under the module's names, in the order of
  registration (the default metrics of the library are its own and are left out);
  \<open>metricsInterval\<close> is the last call of \<^verbatim>\<open>collectDefaultMetrics\<close> (its timeout and
  prefix); the three histogram variables refer to a metric of the registry by its name.
\<close>

record module_state =
  metricNames :: metric_names
  register :: "metric list"
  metricsRoute :: "string option"
  metricsInterval :: "(int option \<times> string) option"
  var_responseTimeHistogram :: "string option"
  var_requestSizeHistogram :: "string option"
  var_responseSizeHistogram :: "string option"
  onExitEvent :: bool

text \<open>The module as it is loaded: lines 7 to 15, and an empty registry.\<close>

definition initial_state :: module_state where
  "initial_state =
     \<lparr>metricNames =
        \<lparr>http_request_duration_seconds = ''http_request_duration_seconds'',
         app_version = ''app_version'',
         http_request_size_bytes = ''http_request_size_bytes'',
         http_response_size_bytes = ''http_response_size_bytes'',
         defaultMetricsPrefix = []\<rparr>,
      register = [],
      metricsRoute = None,
      metricsInterval = None,
      var_responseTimeHistogram = None,
      var_requestSizeHistogram = None,
      var_responseSizeHistogram = None,
      onExitEvent = False\<rparr>"

text \<open>
  The registry: \<^verbatim>\<open>getSingleMetric\<close> looks a name up; constructing a metric registers
  it, and the registry throws when it already holds a metric of that name.
\<close>

definition getSingleMetric :: "metric list \<Rightarrow> string \<Rightarrow> metric option" where
  "getSingleMetric reg n = find (\<lambda>m. metric_name m = n) reg"

definition registerMetric :: "metric \<Rightarrow> metric list \<Rightarrow> error + metric list" where
  "registerMetric m reg =
     (case getSingleMetric reg (metric_name m) of
        Some existing \<Rightarrow>
          Inl (RegistryError (''A metric with the name '' @ metric_name m
                              @ '' has already been registered.''))
      | None \<Rightarrow> Inr (reg @ [m]))"

text \<open>
  The pattern of lines 37, 48, 56 and 63: a metric is constructed only when
  \<^verbatim>\<open>getSingleMetric\<close> finds none of its name.
\<close>

definition getOrCreate :: "metric \<Rightarrow> metric list \<Rightarrow> error + metric list" where
  "getOrCreate m reg =
     (case getSingleMetric reg (metric_name m) of
        Some existing \<Rightarrow> Inr reg
      | None \<Rightarrow> registerMetric m reg)"

text \<open>\<^verbatim>\<open>str.split('.')\<close> and the element of an array at an index.\<close>

fun split_at :: "char \<Rightarrow> string \<Rightarrow> string list" where
  "split_at sep [] = [[]]"
| "split_at sep (c # cs) =
     (if c = sep then [] # split_at sep cs
      else (case split_at sep cs of
              [] \<Rightarrow> [[c]]
            | w # ws \<Rightarrow> (c # w) # ws))"

definition segment :: "string list \<Rightarrow> nat \<Rightarrow> label_value" where
  "segment segs i = (if i < length segs then NumberOf (segs ! i) else Undefined)"

text \<open>Lines 20 and 21: \<^verbatim>\<open>name.replace(/-/g, '_')\<close> replaces every hyphen.\<close>

definition projectName :: "package_info \<Rightarrow> string" where
  "projectName pk = map (\<lambda>c. if c = CHR ''-'' then CHR ''_'' else c) (pkg_name pk)"

text \<open>Lines 27 to 33: each name is prefixed in place, starting from its current value.\<close>

definition prefixNames :: "string \<Rightarrow> metric_names \<Rightarrow> metric_names" where
  "prefixNames project names =
     \<lparr>http_request_duration_seconds = project @ ''_'' @ http_request_duration_seconds names,
      app_version = project @ ''_'' @ app_version names,
      http_request_size_bytes = project @ ''_'' @ http_request_size_bytes names,
      http_response_size_bytes = project @ ''_'' @ http_response_size_bytes names,
      defaultMetricsPrefix = project @ ''_''\<rparr>"

text \<open>The four metrics as lines 38 to 45, 48 to 54, 56 to 61 and 63 to 68 construct them.\<close>

definition versionGauge :: "package_info \<Rightarrow> metric_names \<Rightarrow> metric" where
  "versionGauge pk names =
     (let versionSegments = split_at CHR ''.'' (pkg_version pk) in
      \<lparr>metric_name = app_version names,
       metric_help = ''The service version by package.json'',
       labelNames = [''version'', ''major'', ''minor'', ''patch''],
       kind = Gauge,
       gauge_values =
         [([Str (pkg_version pk), segment versionSegments 0, segment versionSegments 1,
            segment versionSegments 2], 1)]\<rparr>)"

definition durationHistogram :: "options \<Rightarrow> metric_names \<Rightarrow> metric" where
  "durationHistogram opts names =
     \<lparr>metric_name = http_request_duration_seconds names,
      metric_help = ''Duration of HTTP requests in seconds'',
      labelNames = [''method'', ''route'', ''code''],
      kind = Histogram (case durationBuckets opts of
                          Some b \<Rightarrow> b
                        | None \<Rightarrow> [1 / 1000, 5 / 1000, 15 / 1000, 5 / 100, 1 / 10, 2 / 10,
                                   3 / 10, 4 / 10, 5 / 10]),
      gauge_values = []\<rparr>"

definition requestSizeMetric :: "options \<Rightarrow> metric_names \<Rightarrow> metric" where
  "requestSizeMetric opts names =
     \<lparr>metric_name = http_request_size_bytes names,
      metric_help = ''Size of HTTP requests in bytes'',
      labelNames = [''method'', ''route'', ''code''],
      kind = Histogram (case requestSizeBuckets opts of
                          Some b \<Rightarrow> b
                        | None \<Rightarrow> [5, 10, 25, 50, 100, 250, 500, 1000, 2500, 5000, 10000]),
      gauge_values = []\<rparr>"

definition responseSizeMetric :: "options \<Rightarrow> metric_names \<Rightarrow> metric" where
  "responseSizeMetric opts names =
     \<lparr>metric_name = http_response_size_bytes names,
      metric_help = ''Size of HTTP response in bytes'',
      labelNames = [''method'', ''route'', ''code''],
      kind = Histogram (case responseSizeBuckets opts of
                          Some b \<Rightarrow> b
                        | None \<Rightarrow> [5, 10, 25, 50, 100, 250, 500, 1000, 2500, 5000, 10000]),
      gauge_values = []\<rparr>"

text \<open>
  \<^verbatim>\<open>module.exports = (options = {}) => { ... }\<close>, lines 17 to 75. The result is the
  state in which the returned middleware runs, or the exception a constructor raised.
\<close>

definition module_exports :: "package_info \<Rightarrow> options \<Rightarrow> module_state \<Rightarrow> error + module_state" where
  "module_exports pk opts st =
     (let names = (if useUniqueHistogramName opts
                   then prefixNames (projectName pk) (metricNames st)
                   else metricNames st);
          st1 = st\<lparr>metricsRoute := Some (if truthy (metricsPath opts)
                                          then (case metricsPath opts of Some p \<Rightarrow> p | None \<Rightarrow> [])
                                          else ''/metrics''),
                   metricNames := names,
                   metricsInterval := Some (defaultMetricsInterval opts, defaultMetricsPrefix names)\<rparr>
      in case getOrCreate (versionGauge pk names) (register st1) of
           Inl e \<Rightarrow> Inl e
         | Inr reg1 \<Rightarrow>
             (case getOrCreate (durationHistogram opts names) reg1 of
                Inl e \<Rightarrow> Inl e
              | Inr reg2 \<Rightarrow>
                  (case getOrCreate (requestSizeMetric opts names) reg2 of
                     Inl e \<Rightarrow> Inl e
                   | Inr reg3 \<Rightarrow>
                       (case getOrCreate (responseSizeMetric opts names) reg3 of
                          Inl e \<Rightarrow> Inl e
                        | Inr reg4 \<Rightarrow>
                            Inr (st1\<lparr>register := reg4,
                                     var_responseTimeHistogram :=
                                       Some (http_request_duration_seconds names),
                                     var_requestSizeHistogram :=
                                       Some (http_request_size_bytes names),
                                     var_responseSizeHistogram :=
                                       Some (http_response_size_bytes names),
                                     onExitEvent := True\<rparr>)))))"

text \<open>The factory called twice with the same package and options.\<close>

definition module_exports_twice ::
  "package_info \<Rightarrow> options \<Rightarrow> module_state \<Rightarrow> error + module_state" where
  "module_exports_twice pk opts st =
     (case module_exports pk opts st of
        Inl e \<Rightarrow> Inl e
      | Inr st1 \<Rightarrow> module_exports pk opts st1)"

section \<open>Notions used to state the properties\<close>

text \<open>
  The names \<^verbatim>\<open>Object.keys(req.params)\<close> runs over (none when \<^verbatim>\<open>req.params\<close> is not
  an object), the condition \<^verbatim>\<open>res && res.statusCode === 404\<close> of line 142, the
  parameter object (empty when there is none) and the effect of the loop of lines 133
  to 137 on a label that is a string.
\<close>

definition paramNames :: "request \<Rightarrow> string list" where
  "paramNames req = (case params req of None \<Rightarrow> [] | Some ps \<Rightarrow> map fst ps)"

definition notFound :: "request \<Rightarrow> bool" where
  "notFound req = (case res req of None \<Rightarrow> False | Some rs \<Rightarrow> statusCode rs = 404)"

definition paramsObject :: "request \<Rightarrow> params_object" where
  "paramsObject req = (case params req of None \<Rightarrow> [] | Some ps \<Rightarrow> ps)"

definition substituteParams :: "request \<Rightarrow> string \<Rightarrow> string" where
  "substituteParams req label =
     foldl (\<lambda>l paramName.
              string_replace l (paramValue (paramsObject req) paramName) (CHR '':'' # paramName))
       label (paramNames req)"

text \<open>
  Two readings of "replace the value by the placeholder", written from the words and
  not from the source. \<open>replaceFirst\<close> puts the new text in the place of the first
  occurrence only, and \<open>placeholders\<close> does so for each parameter in turn;
  \<open>replaceEvery\<close> replaces every occurrence, left to right.
\<close>

definition replaceFirst :: "string \<Rightarrow> string \<Rightarrow> string \<Rightarrow> string" where
  "replaceFirst str pat new =
     (case indexOf str pat of
        None \<Rightarrow> str
      | Some i \<Rightarrow> take i str @ new @ drop (i + length pat) str)"

definition placeholders :: "params_object \<Rightarrow> string \<Rightarrow> string" where
  "placeholders ps label =
     foldl (\<lambda>l paramName. replaceFirst l (paramValue ps paramName) (CHR '':'' # paramName))
       label (map fst ps)"

function replaceEvery :: "string \<Rightarrow> string \<Rightarrow> string \<Rightarrow> string" where
  "replaceEvery [] pat new = []"
| "replaceEvery (c # cs) pat new =
     (if pat \<noteq> [] \<and> take (length pat) (c # cs) = pat
      then new @ replaceEvery (drop (length pat) (c # cs)) pat new
      else c # replaceEvery cs pat new)"
  by pat_completeness auto
termination
  by (relation "measure (\<lambda>(s, pat, new). length s)") auto

text \<open>
  A request on which nothing is present, and histograms without observations: the
  concrete requests below are updates of the first.
\<close>

definition emptyRequest :: request where
  "emptyRequest =
     \<lparr>req_method = ''GET'', url = None, baseUrl = None, route = None, swagger = None,
      params = None, res = None, req_content_length = None, metrics = None\<rparr>"

definition emptyHistograms :: histograms where
  "emptyHistograms =
     \<lparr>responseTimeHistogram = [], requestSizeHistogram = [], responseSizeHistogram = []\<rparr>"


text \<open>
  The decimal numeral of a natural number, as a \<^verbatim>\<open>content-length\<close> header carries
  it, and the names under which a run of the factory left metrics in the registry.
\<close>

fun decimal :: "nat \<Rightarrow> string" where
  "decimal n =
     (if n < 10 then [char_of (48 + n)]
      else decimal (n div 10) @ [char_of (48 + n mod 10)])"

declare decimal.simps [simp del]

definition registeredNames :: "error + module_state \<Rightarrow> error + string list" where
  "registeredNames r =
     (case r of Inl e \<Rightarrow> Inl e | Inr st \<Rightarrow> Inr (map metric_name (register st)))"


section \<open>Facts about the string functions and the classifier\<close>

lemma replaceParams_undefined:
  "replaceParams ps names None = (if names = [] then Inr None else Inl TypeError)"
  by (cases names) simp_all

lemma replaceParams_string:
  "replaceParams ps names (Some r) =
     Inr (Some (foldl (\<lambda>l n. string_replace l (paramValue ps n) (CHR '':'' # n)) r names))"
  by (induction names arbitrary: r) simp_all

lemma getSubstitution_plain:
  "CHR ''$'' \<notin> set repl \<Longrightarrow> getSubstitution m pre post repl = repl"
  by (induction m pre post repl rule: getSubstitution.induct) auto

lemma string_replace_plain:
  "CHR ''$'' \<notin> set repl \<Longrightarrow> string_replace str pat repl = replaceFirst str pat repl"
  by (simp add: string_replace_def replaceFirst_def getSubstitution_plain split: option.splits)

lemma foldl_replace_plain:
  "\<forall>n \<in> set names. CHR ''$'' \<notin> set n \<Longrightarrow>
   foldl (\<lambda>l n. string_replace l (paramValue ps n) (CHR '':'' # n)) r names =
   foldl (\<lambda>l n. replaceFirst l (paramValue ps n) (CHR '':'' # n)) r names"
  by (induction names arbitrary: r) (simp_all add: string_replace_plain)

lemma substituteParams_none: "paramNames req = [] \<Longrightarrow> substituteParams req label = label"
  by (simp add: substituteParams_def)

text \<open>The classifier in one equation: when it throws, when it withholds, what it returns.\<close>

lemma getRoute_eq:
  "getRoute req =
     (if selectRoute req = None \<and> paramNames req \<noteq> [] then Inl TypeError
      else if route req = None \<and> notFound req then Inr None
      else Inr (map_option (substituteParams req) (selectRoute req)))"
proof (cases "params req")
  case None
  then show ?thesis
    by (cases "selectRoute req")
       (simp_all add: getRoute_def paramNames_def notFound_def substituteParams_def)
next
  case (Some ps)
  then show ?thesis
    by (cases "selectRoute req")
       (simp_all add: getRoute_def paramNames_def notFound_def substituteParams_def
          paramsObject_def replaceParams_undefined replaceParams_string)
qed

text \<open>
  The label the priority rules leave undefined, in the terms of the request; and a
  label in which no parameter value occurs stays as it is.
\<close>

lemma selectRoute_undefined:
  "(selectRoute req = None) =
     (case swagger req of
        Some sw \<Rightarrow> apiPath sw = None
      | None \<Rightarrow> baseUrl req = None \<and> \<not> truthy (url req))"
  by (cases "swagger req"; cases "route req"; cases "baseUrl req"; cases "url req")
     (simp_all add: selectRoute_def truthy_def)

lemma string_replace_absent: "indexOf str pat = None \<Longrightarrow> string_replace str pat repl = str"
  by (simp add: string_replace_def)

lemma foldl_replace_absent:
  "\<forall>n \<in> set names. indexOf label (v n) = None \<Longrightarrow>
   foldl (\<lambda>l n. string_replace l (v n) (CHR '':'' # n)) label names = label"
  by (induction names) (simp_all add: string_replace_absent)

lemma substituteParams_absent:
  "\<forall>n \<in> set (paramNames req). indexOf label (paramValue (paramsObject req) n) = None \<Longrightarrow>
   substituteParams req label = label"
  unfolding substituteParams_def by (rule foldl_replace_absent)



text \<open>
  \<^const>\<open>indexOf\<close> finds an occurrence, the first one, and finds one whenever there
  is one.
\<close>

lemma indexOf_occurrence:
  "indexOf s pat = Some i \<Longrightarrow> take (length pat) (drop i s) = pat"
proof (induction s arbitrary: i)
  case Nil
  then show ?case by (simp split: if_splits)
next
  case (Cons c cs)
  show ?case
  proof (cases "take (length pat) (c # cs) = pat")
    case True
    with Cons.prems show ?thesis by simp
  next
    case False
    with Cons.prems obtain j where j: "indexOf cs pat = Some j" and i: "i = Suc j"
      by auto
    from Cons.IH [OF j] i show ?thesis by simp
  qed
qed

lemma indexOf_first:
  "indexOf s pat = Some i \<Longrightarrow> j < i \<Longrightarrow> take (length pat) (drop j s) \<noteq> pat"
proof (induction s arbitrary: i j)
  case Nil
  then show ?case by (simp split: if_splits)
next
  case (Cons c cs)
  show ?case
  proof (cases "take (length pat) (c # cs) = pat")
    case True
    with Cons.prems show ?thesis by simp
  next
    case False
    with Cons.prems obtain k where k: "indexOf cs pat = Some k" and i: "i = Suc k"
      by auto
    show ?thesis
    proof (cases j)
      case 0
      with False show ?thesis by simp
    next
      case (Suc j')
      with Cons.prems(2) i have "j' < k" by simp
      from Cons.IH [OF k this] Suc show ?thesis by simp
    qed
  qed
qed

lemma indexOf_complete:
  "take (length pat) (drop j s) = pat \<Longrightarrow> j \<le> length s \<Longrightarrow> indexOf s pat \<noteq> None"
proof (induction s arbitrary: j)
  case Nil
  then show ?case by simp
next
  case (Cons c cs)
  show ?case
  proof (cases "take (length pat) (c # cs) = pat")
    case True
    then show ?thesis by simp
  next
    case False
    with Cons.prems(1) obtain j' where j: "j = Suc j'" by (cases j) auto
    with Cons.prems have "take (length pat) (drop j' cs) = pat" and "j' \<le> length cs"
      by simp_all
    from Cons.IH [OF this] False show ?thesis by simp
  qed
qed

text \<open>Headers: absent, without any digit, and a decimal numeral.\<close>

lemma parseIntOr0_absent: "parseIntOr0 None = Num 0"
  by (simp add: parseIntOr0_def parseInt_def isWhiteSpace_def isDigit_def digitValue_def)

lemma takeWhile_subset_nil: "\<forall>c \<in> set s. \<not> P c \<Longrightarrow> set t \<subseteq> set s \<Longrightarrow> takeWhile P t = []"
  by (cases t) auto

lemma parseInt_no_digit:
  assumes "\<forall>c \<in> set s. \<not> isDigit 10 c"
  shows "parseInt s = NaN"
proof -
  define s0 where "s0 = dropWhile isWhiteSpace s"
  define s1 where "s1 = (if take 1 s0 = ''+'' \<or> take 1 s0 = ''-'' then drop 1 s0 else s0)"
  have sub0: "set s0 \<subseteq> set s"
    unfolding s0_def by (rule set_dropWhileD [THEN subsetI])
  have sub1: "set s1 \<subseteq> set s"
    unfolding s1_def using sub0 set_drop_subset [of 1 s0] by auto
  have zero: "isDigit 10 CHR ''0''"
    by (simp add: isDigit_def digitValue_def)
  have nohex: "take 2 s1 \<noteq> ''0x'' \<and> take 2 s1 \<noteq> ''0X''"
  proof (cases s1)
    case Nil
    then show ?thesis by simp
  next
    case (Cons c cs)
    with sub1 assms have "\<not> isDigit 10 c" by auto
    with zero have "c \<noteq> CHR ''0''" by auto
    with Cons show ?thesis by (cases cs) auto
  qed
  have "takeWhile (isDigit 10) s1 = []"
    using assms sub1 by (rule takeWhile_subset_nil)
  then show ?thesis
    unfolding parseInt_def Let_def s0_def [symmetric] s1_def [symmetric]
    using nohex by simp
qed

lemma not_a_digit:
  "isWhiteSpace c \<or> c = CHR ''+'' \<or> c = CHR ''-'' \<or> c = CHR ''x'' \<or> c = CHR ''X'' \<Longrightarrow>
   \<not> isDigit 10 c"
  by (auto simp: isWhiteSpace_def isDigit_def digitValue_def)

lemma parseInt_leading_non_digit:
  assumes "\<not> isWhiteSpace c" and "c \<noteq> CHR ''+''" and "c \<noteq> CHR ''-''" and "\<not> isDigit 10 c"
  shows "parseInt (c # cs) = NaN"
proof -
  have "isDigit 10 CHR ''0''"
    by (simp add: isDigit_def digitValue_def)
  with assms(4) have "c \<noteq> CHR ''0''" by auto
  with assms show ?thesis
    by (simp add: parseInt_def Let_def)
qed

lemma digitValue_char_of: "d < 10 \<Longrightarrow> digitValue (char_of (48 + d)) = Some d"
  by (simp add: digitValue_def)

lemma decimal_digits: "c \<in> set (decimal n) \<Longrightarrow> \<exists>d::nat. d < 10 \<and> c = char_of (48 + d)"
proof (induction n rule: decimal.induct)
  case (1 n)
  show ?case
  proof (cases "n < 10")
    case True
    with "1.prems" show ?thesis by (subst (asm) decimal.simps) auto
  next
    case False
    with "1.prems" have "c \<in> set (decimal (n div 10)) \<or> c = char_of (48 + n mod 10)"
      by (subst (asm) decimal.simps) auto
    then show ?thesis
    proof
      assume "c \<in> set (decimal (n div 10))"
      with "1.IH" False show ?thesis by simp
    next
      assume "c = char_of (48 + n mod 10)"
      moreover have "n mod 10 < 10" by simp
      ultimately show ?thesis by blast
    qed
  qed
qed

lemma digitsValue_snoc:
  "digitsValue R (Z @ [c]) =
     digitsValue R Z * R + (case digitValue c of None \<Rightarrow> 0 | Some d \<Rightarrow> d)"
  by (simp add: digitsValue_def)

lemma digitsValue_decimal: "digitsValue 10 (decimal n) = n"
proof (induction n rule: decimal.induct)
  case (1 n)
  show ?case
  proof (cases "n < 10")
    case True
    then show ?thesis
      by (subst decimal.simps) (simp add: digitsValue_def digitValue_char_of)
  next
    case False
    have m: "n mod 10 < 10" by simp
    from False "1.IH" have "digitsValue 10 (decimal (n div 10)) = n div 10" by simp
    with False show ?thesis
      by (subst decimal.simps) (simp add: digitsValue_snoc digitValue_char_of [OF m])
  qed
qed

lemma decimal_not_empty: "decimal n \<noteq> []"
  by (subst decimal.simps) simp

lemma parseInt_decimal: "parseInt (decimal n) = roundToDouble False n"
proof -
  have dig: "\<forall>c \<in> set (decimal n). isDigit 10 c"
  proof
    fix c
    assume "c \<in> set (decimal n)"
    then obtain d :: nat where "d < 10" and "c = char_of (48 + d)"
      using decimal_digits by blast
    then show "isDigit 10 c"
      by (simp add: isDigit_def digitValue_char_of)
  qed
  have d10: "\<And>c. isDigit 10 c \<Longrightarrow>
      \<not> isWhiteSpace c \<and> c \<noteq> CHR ''+'' \<and> c \<noteq> CHR ''-'' \<and> c \<noteq> CHR ''x'' \<and> c \<noteq> CHR ''X''"
    using not_a_digit by blast
  obtain c cs where ccs: "decimal n = c # cs"
    using decimal_not_empty [of n] by (cases "decimal n") auto
  from dig ccs have c: "isDigit 10 c" by simp
  have ws: "dropWhile isWhiteSpace (decimal n) = decimal n"
    using d10 [OF c] ccs by simp
  have sign: "take 1 (decimal n) \<noteq> ''+'' \<and> take 1 (decimal n) \<noteq> ''-''"
    using d10 [OF c] ccs by simp
  have hex: "take 2 (decimal n) \<noteq> ''0x'' \<and> take 2 (decimal n) \<noteq> ''0X''"
  proof (cases cs)
    case Nil
    with ccs show ?thesis by simp
  next
    case (Cons e es)
    with dig ccs have "isDigit 10 e" by simp
    from d10 [OF this] ccs Cons show ?thesis by simp
  qed
  have tw: "takeWhile (isDigit 10) (decimal n) = decimal n"
    using dig by (simp add: takeWhile_eq_all_conv)
  show ?thesis
    using sign hex decimal_not_empty [of n]
    by (simp add: parseInt_def Let_def ws tw digitsValue_decimal)
qed

lemma parseIntOr0_decimal: "n \<le> 2 ^ 53 \<Longrightarrow> parseIntOr0 (Some (decimal n)) = Num (int n)"
  by (simp add: parseIntOr0_def parseInt_decimal roundToDouble_def)

text \<open>
  Beyond the doubles: a numeral whose value is 2 to the power 1024 or more is read as
  infinity, a run of nines of that size for one.
\<close>

lemma bitLength_lower: "0 < n \<Longrightarrow> 2 ^ (bitLength n - 1) \<le> n"
proof (induction n rule: bitLength.induct)
  case (1 n)
  show ?case
  proof (cases "n div 2 = 0")
    case True
    with "1.prems" have "n = 1" by (simp add: div_eq_0_iff)
    then show ?thesis by (simp add: bitLength.simps)
  next
    case False
    with "1.prems" "1.IH" have ih: "2 ^ (bitLength (n div 2) - 1) \<le> n div 2" by simp
    from False have pos: "0 < bitLength (n div 2)" by (simp add: bitLength.simps)
    have "bitLength n = Suc (bitLength (n div 2))"
      using "1.prems" by (subst bitLength.simps) simp
    then have "2 ^ (bitLength n - 1) = 2 * 2 ^ (bitLength (n div 2) - 1)"
      using pos by (cases "bitLength (n div 2)") simp_all
    also have "\<dots> \<le> 2 * (n div 2)" using ih by simp
    also have "\<dots> \<le> n" by simp
    finally show ?thesis .
  qed
qed

lemma bitLength_greater: "2 ^ k \<le> n \<Longrightarrow> k < bitLength n"
proof (induction k arbitrary: n)
  case 0
  then show ?case by (subst bitLength.simps) simp
next
  case (Suc k)
  then have "2 ^ k \<le> n div 2" by simp
  from Suc.IH [OF this] have "k < bitLength (n div 2)" .
  moreover have "n \<noteq> 0"
  proof -
    have "0 < (2::nat) ^ Suc k" by simp
    with Suc.prems show ?thesis by linarith
  qed
  ultimately show ?case by (subst bitLength.simps) simp
qed

lemma roundToDouble_overflow:
  assumes "2 ^ 1024 \<le> a"
  shows "roundToDouble neg a = (if neg then NegInfinity else PosInfinity)"
proof -
  define e where "e = bitLength a - 53"
  define q where "q = a div 2 ^ e"
  define r where "r = a mod 2 ^ e"
  define q' where "q' = (if 2 ^ e < 2 * r \<or> (2 * r = 2 ^ e \<and> odd q) then q + 1 else q)"
  have big: "\<not> a \<le> 2 ^ 53"
  proof -
    have "(2::nat) ^ 53 < 2 ^ 1024" by simp
    with assms show ?thesis by linarith
  qed
  have bl: "1024 < bitLength a" using assms by (rule bitLength_greater)
  have pos: "0 < a" using assms by (cases a) auto
  have "2 ^ (bitLength a - 1) \<le> a" using pos by (rule bitLength_lower)
  moreover have "bitLength a - 1 = 52 + e" using bl by (simp add: e_def)
  ultimately have "2 ^ 52 * 2 ^ e \<le> a" by (simp add: power_add)
  then have "2 ^ 52 \<le> q"
    unfolding q_def by (simp add: less_eq_div_iff_mult_less_eq)
  moreover have "q \<le> q'" by (simp add: q'_def)
  ultimately have "2 ^ 52 \<le> q'" by (rule le_trans)
  then have a1: "2 ^ 52 * 2 ^ e \<le> q' * 2 ^ e" by (rule mult_le_mono1)
  have "(2::nat) ^ 1024 \<le> 2 ^ (52 + e)"
    using bl by (intro power_increasing) (simp_all add: e_def)
  then have a2: "(2::nat) ^ 1024 \<le> 2 ^ 52 * 2 ^ e" by (simp only: power_add)
  from a2 a1 have "2 ^ 1024 \<le> q' * 2 ^ e" by (rule le_trans)
  then show ?thesis
    unfolding roundToDouble_def Let_def e_def [symmetric] q_def [symmetric]
      r_def [symmetric] q'_def [symmetric]
    using big by simp
qed

lemma digitsValue_nines: "Suc (digitsValue 10 (replicate k CHR ''9'')) = 10 ^ k"
proof (induction k)
  case 0
  then show ?case by (simp add: digitsValue_def)
next
  case (Suc k)
  have "replicate (Suc k) CHR ''9'' = replicate k CHR ''9'' @ ''9''"
    by (simp add: replicate_append_same)
  then have "digitsValue 10 (replicate (Suc k) CHR ''9'') =
      digitsValue 10 (replicate k CHR ''9'') * 10 + 9"
    by (simp add: digitsValue_def digitValue_def)
  with Suc show ?case by simp
qed

lemma parseInt_nines:
  assumes "2 ^ 1024 < (10::nat) ^ k"
  shows "parseInt (replicate k CHR ''9'') = PosInfinity"
proof -
  have k: "k \<noteq> 0" using assms by (cases k) auto
  then obtain j where j: "k = Suc j" by (cases k) auto
  have nine: "\<not> isWhiteSpace CHR ''9'' \<and> isDigit 10 CHR ''9''"
    by (simp add: isWhiteSpace_def isDigit_def digitValue_def)
  have hex: "take 2 (replicate k CHR ''9'') \<noteq> ''0x'' \<and> take 2 (replicate k CHR ''9'') \<noteq> ''0X''"
    using j by simp
  have sign: "take 1 (replicate k CHR ''9'') \<noteq> ''+'' \<and> take 1 (replicate k CHR ''9'') \<noteq> ''-''"
    using j by simp
  have "2 ^ 1024 \<le> digitsValue 10 (replicate k CHR ''9'')"
    using assms digitsValue_nines [of k] by linarith
  then have "roundToDouble False (digitsValue 10 (replicate k CHR ''9'')) = PosInfinity"
    by (simp add: roundToDouble_overflow)
  then show ?thesis
    using nine hex sign k
    by (simp add: parseInt_def Let_def)
qed

lemma parseIntOr0_310_nines: "parseIntOr0 (Some (replicate 310 CHR ''9'')) = PosInfinity"
proof -
  have "(2::nat) ^ 1024 < 10 ^ 310" by simp
  then show ?thesis by (simp add: parseIntOr0_def parseInt_nines)
qed

text \<open>
  The registry under the factory: a lookup succeeds after \<^const>\<open>getOrCreate\<close>, what
  was found stays found, and nothing is constructed for a name that is found.
\<close>

lemma getOrCreate_cases:
  "getOrCreate m reg =
     (if getSingleMetric reg (metric_name m) = None then Inr (reg @ [m]) else Inr reg)"
  by (simp add: getOrCreate_def registerMetric_def split: option.splits)

lemma getSingleMetric_append:
  "getSingleMetric (reg @ [m]) n =
     (case getSingleMetric reg n of
        Some x \<Rightarrow> Some x
      | None \<Rightarrow> if metric_name m = n then Some m else None)"
  by (induction reg) (simp_all add: getSingleMetric_def)

lemma getOrCreate_found:
  "getOrCreate m reg = Inr reg' \<Longrightarrow> getSingleMetric reg' (metric_name m) \<noteq> None"
  by (auto simp: getOrCreate_cases getSingleMetric_append split: if_splits)

lemma getOrCreate_keeps:
  "getOrCreate m reg = Inr reg' \<Longrightarrow> getSingleMetric reg n \<noteq> None \<Longrightarrow>
   getSingleMetric reg' n \<noteq> None"
  by (auto simp: getOrCreate_cases getSingleMetric_append split: if_splits)

lemma getOrCreate_reuse:
  "getSingleMetric reg (metric_name m) \<noteq> None \<Longrightarrow> getOrCreate m reg = Inr reg"
  by (simp add: getOrCreate_cases)


section \<open>The classifier's properties\<close>

text \<open>
  C1, as the source has it. The claim: for every completed request without a resolved
  route whose final status code is 404, the classifier returns "no label", and so none
  of the three histograms records an observation. The guard of line 142 does not look
  at the response that finished: it reads the status code through \<^verbatim>\<open>req.res\<close>, the
  back reference that express puts on the request (the comment of lines 139 to 141
  says that the condition is true only in express), and it does not apply to a request
  without that reference. For a request with a non-empty raw URL for which no route
  pattern was resolved in either convention (no matched route, no alternate
  descriptor) and whose response on \<^verbatim>\<open>req.res\<close> has status code 404, the classifier
  returns "no label", nothing is recorded and nothing is thrown.
\<close>

theorem notFound_without_route_records_nothing:
  assumes "route req = None" and "swagger req = None" and "url req = Some u" and "u \<noteq> []"
    and "notFound req"
  shows "getRoute req = Inr None \<and> handleResponse req rs now h = (None, h)"
proof -
  have "selectRoute req \<noteq> None"
    using assms(2,3,4) by (simp add: selectRoute_undefined truthy_def)
  then have g: "getRoute req = Inr None"
    using assms(1,5) by (simp add: getRoute_eq)
  then show ?thesis
    by (simp add: handleResponse_def)
qed

theorem notFound_without_route_witness:
  "route (emptyRequest\<lparr>url := Some ''/nope/123'', baseUrl := Some [], params := Some [],
            res := Some \<lparr>statusCode = 404, res_content_length = Some ''9''\<rparr>\<rparr>) = None
   \<and> swagger (emptyRequest\<lparr>url := Some ''/nope/123'', baseUrl := Some [], params := Some [],
            res := Some \<lparr>statusCode = 404, res_content_length = Some ''9''\<rparr>\<rparr>) = None
   \<and> notFound (emptyRequest\<lparr>url := Some ''/nope/123'', baseUrl := Some [], params := Some [],
            res := Some \<lparr>statusCode = 404, res_content_length = Some ''9''\<rparr>\<rparr>)
   \<and> getRoute (emptyRequest\<lparr>url := Some ''/nope/123'', baseUrl := Some [], params := Some [],
            res := Some \<lparr>statusCode = 404, res_content_length = Some ''9''\<rparr>\<rparr>) = Inr None
   \<and> handleResponse (emptyRequest\<lparr>url := Some ''/nope/123'', baseUrl := Some [],
            params := Some [],
            res := Some \<lparr>statusCode = 404, res_content_length = Some ''9''\<rparr>\<rparr>)
         \<lparr>statusCode = 404, res_content_length = Some ''9''\<rparr> 0 emptyHistograms
       = (None, emptyHistograms)"
proof -
  let ?rq = "emptyRequest\<lparr>url := Some ''/nope/123'', baseUrl := Some [], params := Some [],
            res := Some \<lparr>statusCode = 404, res_content_length = Some ''9''\<rparr>\<rparr>"
  have r: "route ?rq = None" by (simp add: emptyRequest_def)
  have s: "swagger ?rq = None" by (simp add: emptyRequest_def)
  have u: "url ?rq = Some ''/nope/123''" by simp
  have e: "''/nope/123'' \<noteq> []" by simp
  have n: "notFound ?rq" by (simp add: notFound_def emptyRequest_def)
  show ?thesis
    using notFound_without_route_records_nothing [OF r s u e n,
        of "\<lparr>statusCode = 404, res_content_length = Some ''9''\<rparr>" 0 emptyHistograms] r s n
    by simp
qed

theorem notFound_without_route_counterexample:
  "route (emptyRequest\<lparr>url := Some ''/nope/123'',
            metrics := Some \<lparr>timer = \<lparr>timer_method = ''GET'', timer_start = 0\<rparr>,
                             contentLength = Num 0\<rparr>\<rparr>) = None
   \<and> res (emptyRequest\<lparr>url := Some ''/nope/123'',
            metrics := Some \<lparr>timer = \<lparr>timer_method = ''GET'', timer_start = 0\<rparr>,
                             contentLength = Num 0\<rparr>\<rparr>) = None
   \<and> getRoute (emptyRequest\<lparr>url := Some ''/nope/123'',
            metrics := Some \<lparr>timer = \<lparr>timer_method = ''GET'', timer_start = 0\<rparr>,
                             contentLength = Num 0\<rparr>\<rparr>) = Inr (Some ''/nope/123'')
   \<and> handleResponse (emptyRequest\<lparr>url := Some ''/nope/123'',
            metrics := Some \<lparr>timer = \<lparr>timer_method = ''GET'', timer_start = 0\<rparr>,
                             contentLength = Num 0\<rparr>\<rparr>)
         \<lparr>statusCode = 404, res_content_length = Some ''9''\<rparr> 1 emptyHistograms
       = (None,
          \<lparr>responseTimeHistogram =
             [(\<lparr>label_method = ''GET'', label_route = ''/nope/123'', label_code = 404\<rparr>, 1)],
           requestSizeHistogram =
             [(\<lparr>label_method = ''GET'', label_route = ''/nope/123'', label_code = 404\<rparr>, 0)],
           responseSizeHistogram =
             [(\<lparr>label_method = ''GET'', label_route = ''/nope/123'', label_code = 404\<rparr>, 9)]\<rparr>)"
proof -
  have 9: "parseIntOr0 (Some ''9'') = Num 9"
    by (simp add: parseIntOr0_def parseInt_def isWhiteSpace_def isDigit_def digitValue_def
        digitsValue_def roundToDouble_def)
  show ?thesis
    by (simp add: emptyRequest_def emptyHistograms_def handleResponse_def getRoute_def
        selectRoute_def truthy_def observe_def 9)
qed

text \<open>
  C7, as the source has it. The claim: for every completed request without a resolved
  route and with a final status code other than 404, the raw URL is the label,
  verbatim. The raw URL is the third choice of the classifier and the parameter values
  are replaced in it afterwards: with no route resolved in either convention (no
  matched route, no alternate descriptor), no base path, a non-empty raw URL, a
  parameter object that is absent or empty and no 404 on \<^verbatim>\<open>req.res\<close>, the label is
  the raw URL, verbatim.
\<close>

theorem raw_url_is_label:
  assumes "route req = None" and "swagger req = None" and "\<not> truthy (baseUrl req)"
    and "url req = Some u" and "u \<noteq> []" and "paramNames req = []" and "\<not> notFound req"
  shows "getRoute req = Inr (Some u)"
proof -
  have "selectRoute req = Some u"
    using assms by (simp add: selectRoute_def truthy_def)
  then show ?thesis
    using assms by (simp add: getRoute_eq substituteParams_none)
qed

theorem raw_url_is_label_witness:
  "route (emptyRequest\<lparr>url := Some ''/health?full=1'', params := Some [],
            res := Some \<lparr>statusCode = 500, res_content_length = None\<rparr>\<rparr>) = None
   \<and> swagger (emptyRequest\<lparr>url := Some ''/health?full=1'', params := Some [],
            res := Some \<lparr>statusCode = 500, res_content_length = None\<rparr>\<rparr>) = None
   \<and> \<not> truthy (baseUrl (emptyRequest\<lparr>url := Some ''/health?full=1'', params := Some [],
            res := Some \<lparr>statusCode = 500, res_content_length = None\<rparr>\<rparr>))
   \<and> paramNames (emptyRequest\<lparr>url := Some ''/health?full=1'', params := Some [],
            res := Some \<lparr>statusCode = 500, res_content_length = None\<rparr>\<rparr>) = []
   \<and> \<not> notFound (emptyRequest\<lparr>url := Some ''/health?full=1'', params := Some [],
            res := Some \<lparr>statusCode = 500, res_content_length = None\<rparr>\<rparr>)
   \<and> getRoute (emptyRequest\<lparr>url := Some ''/health?full=1'', params := Some [],
            res := Some \<lparr>statusCode = 500, res_content_length = None\<rparr>\<rparr>)
       = Inr (Some ''/health?full=1'')"
proof -
  let ?rq = "emptyRequest\<lparr>url := Some ''/health?full=1'', params := Some [],
            res := Some \<lparr>statusCode = 500, res_content_length = None\<rparr>\<rparr>"
  have 1: "route ?rq = None" by (simp add: emptyRequest_def)
  have 2: "swagger ?rq = None" by (simp add: emptyRequest_def)
  have 3: "\<not> truthy (baseUrl ?rq)" by (simp add: emptyRequest_def truthy_def)
  have 4: "url ?rq = Some ''/health?full=1''" by (simp add: emptyRequest_def)
  have 5: "''/health?full=1'' \<noteq> []" by simp
  have 6: "paramNames ?rq = []" by (simp add: paramNames_def emptyRequest_def)
  have 7: "\<not> notFound ?rq" by (simp add: notFound_def emptyRequest_def)
  show ?thesis
    using raw_url_is_label [OF 1 2 3 4 5 6 7] 1 2 3 6 7 by simp
qed

theorem raw_url_is_label_counterexample:
  "getRoute (emptyRequest\<lparr>url := Some ''/x'', baseUrl := Some ''/api'', params := Some [],
               res := Some \<lparr>statusCode = 500, res_content_length = None\<rparr>\<rparr>)
     = Inr (Some ''/api'')
   \<and> getRoute (emptyRequest\<lparr>url := Some ''/users/42'', params := Some [(''id'', Some ''42'')],
               res := Some \<lparr>statusCode = 200, res_content_length = None\<rparr>\<rparr>)
     = Inr (Some ''/users/:id'')"
  by (simp add: emptyRequest_def getRoute_def selectRoute_def truthy_def string_replace_def
      paramValue_def)





text \<open>
  C9, as the source has it. The claim: without an alternate descriptor, with a base
  path and a matched route, the label is the base path followed by the route pattern,
  and the base path alone when the pattern is the root path. Lines 121 to 124 select
  exactly that (a base path exists when \<^verbatim>\<open>req.baseUrl\<close> is a non-empty string: the
  empty string is falsy), and the 404 guard does not apply to a matched route; but the
  parameter values are then replaced in the whole of it as line 135 does, in the base
  path too. The label is the concatenation itself when no parameter value occurs in
  it.
\<close>

theorem base_path_and_route_pattern:
  assumes "swagger req = None" and "baseUrl req = Some b" and "b \<noteq> []"
    and "route req = Some rt"
  shows "selectRoute req = Some (if path rt = ''/'' then b else b @ path rt)
         \<and> getRoute req =
             Inr (Some (substituteParams req (if path rt = ''/'' then b else b @ path rt)))
         \<and> ((\<forall>n \<in> set (paramNames req).
                 indexOf (if path rt = ''/'' then b else b @ path rt)
                   (paramValue (paramsObject req) n) = None) \<longrightarrow>
              getRoute req = Inr (Some (if path rt = ''/'' then b else b @ path rt)))"
proof -
  have s: "selectRoute req = Some (if path rt = ''/'' then b else b @ path rt)"
    using assms by (simp add: selectRoute_def truthy_def)
  have g: "getRoute req =
             Inr (Some (substituteParams req (if path rt = ''/'' then b else b @ path rt)))"
    using assms(4) by (simp add: getRoute_eq s)
  show ?thesis
    using s g substituteParams_absent [of req "if path rt = ''/'' then b else b @ path rt"]
    by simp
qed

theorem base_path_and_route_pattern_witness:
  "swagger (emptyRequest\<lparr>url := Some ''/users/42'', baseUrl := Some ''/api'',
              route := Some \<lparr>path = ''/users/:id''\<rparr>,
              params := Some [(''id'', Some ''42'')],
              res := Some \<lparr>statusCode = 404, res_content_length = None\<rparr>\<rparr>) = None
   \<and> getRoute (emptyRequest\<lparr>url := Some ''/users/42'', baseUrl := Some ''/api'',
              route := Some \<lparr>path = ''/users/:id''\<rparr>,
              params := Some [(''id'', Some ''42'')],
              res := Some \<lparr>statusCode = 404, res_content_length = None\<rparr>\<rparr>)
     = Inr (Some ''/api/users/:id'')
   \<and> getRoute (emptyRequest\<lparr>url := Some ''/'', baseUrl := Some ''/api'',
              route := Some \<lparr>path = ''/''\<rparr>\<rparr>)
     = Inr (Some ''/api'')"
proof -
  let ?rq = "emptyRequest\<lparr>url := Some ''/users/42'', baseUrl := Some ''/api'',
              route := Some \<lparr>path = ''/users/:id''\<rparr>,
              params := Some [(''id'', Some ''42'')],
              res := Some \<lparr>statusCode = 404, res_content_length = None\<rparr>\<rparr>"
  let ?root = "emptyRequest\<lparr>url := Some ''/'', baseUrl := Some ''/api'',
              route := Some \<lparr>path = ''/''\<rparr>\<rparr>"
  have 1: "swagger ?rq = None" by (simp add: emptyRequest_def)
  have 2: "baseUrl ?rq = Some ''/api''" by (simp add: emptyRequest_def)
  have 3: "''/api'' \<noteq> []" by simp
  have 4: "route ?rq = Some \<lparr>path = ''/users/:id''\<rparr>" by (simp add: emptyRequest_def)
  have 5: "\<forall>n \<in> set (paramNames ?rq).
             indexOf ''/api/users/:id'' (paramValue (paramsObject ?rq) n) = None"
    by (simp add: paramNames_def paramsObject_def paramValue_def emptyRequest_def)
  have r1: "swagger ?root = None" by (simp add: emptyRequest_def)
  have r2: "baseUrl ?root = Some ''/api''" by (simp add: emptyRequest_def)
  have r4: "route ?root = Some \<lparr>path = ''/''\<rparr>" by (simp add: emptyRequest_def)
  have r5: "paramNames ?root = []" by (simp add: paramNames_def emptyRequest_def)
  show ?thesis
    using base_path_and_route_pattern [OF 1 2 3 4] base_path_and_route_pattern [OF r1 r2 3 r4]
      1 substituteParams_absent [OF 5] substituteParams_none [OF r5, of "''/api''"]
    by simp
qed

theorem base_path_and_route_pattern_counterexample:
  "getRoute (emptyRequest\<lparr>url := Some ''/items/1'', baseUrl := Some ''/v1'',
               route := Some \<lparr>path = ''/items/:id''\<rparr>,
               params := Some [(''id'', Some ''1'')],
               res := Some \<lparr>statusCode = 200, res_content_length = None\<rparr>\<rparr>)
     = Inr (Some ''/v:id/items/:id'')"
  by (simp add: emptyRequest_def getRoute_def selectRoute_def truthy_def string_replace_def
      paramValue_def)

section \<open>Parameter placeholders\<close>

text \<open>
  C2, as the source has it. The claim: when the host framework resolved a route
  pattern and supplied the parameter values, the label is that pattern with every
  literal occurrence of each value replaced by the placeholder. The source calls
  \<^verbatim>\<open>replace\<close> with a string, which replaces the first occurrence only, and it does
  so on the label the priority rules selected, which is the pattern itself only
  without an alternate descriptor and a base path. For parameter names without a
  dollar sign (which the replacement text would expand): the label is the selected one
  in which, for each parameter in the order of the object, the first occurrence of its
  value, if there is one, is replaced by the colon and the name.
\<close>

theorem placeholder_replaces_first_occurrence:
  assumes "route req = Some rt" and "params req = Some ps" and "selectRoute req = Some base"
    and "\<forall>n \<in> set (map fst ps). CHR ''$'' \<notin> set n"
  shows "getRoute req = Inr (Some (placeholders ps base))
         \<and> (swagger req = None \<and> \<not> truthy (baseUrl req) \<and> truthy (url req)
              \<longrightarrow> base = path rt)"
proof -
  have "substituteParams req base = placeholders ps base"
    using assms(2,4)
    by (simp add: substituteParams_def placeholders_def paramNames_def paramsObject_def
        foldl_replace_plain)
  then have g: "getRoute req = Inr (Some (placeholders ps base))"
    using assms(1,3) by (simp add: getRoute_eq)
  have "swagger req = None \<and> \<not> truthy (baseUrl req) \<and> truthy (url req) \<longrightarrow> base = path rt"
    using assms(1,3) by (auto simp: selectRoute_def)
  with g show ?thesis by simp
qed

theorem placeholder_witness:
  "route (emptyRequest\<lparr>url := Some ''/users/42'', route := Some \<lparr>path = ''/users/:id''\<rparr>,
            params := Some [(''id'', Some ''42'')]\<rparr>) = Some \<lparr>path = ''/users/:id''\<rparr>
   \<and> selectRoute (emptyRequest\<lparr>url := Some ''/users/42'',
            route := Some \<lparr>path = ''/users/:id''\<rparr>,
            params := Some [(''id'', Some ''42'')]\<rparr>) = Some ''/users/:id''
   \<and> placeholders [(''id'', Some ''42'')] ''/users/:id'' = ''/users/:id''
   \<and> getRoute (emptyRequest\<lparr>url := Some ''/users/42'', route := Some \<lparr>path = ''/users/:id''\<rparr>,
            params := Some [(''id'', Some ''42'')]\<rparr>) = Inr (Some ''/users/:id'')"
proof -
  let ?rq = "emptyRequest\<lparr>url := Some ''/users/42'', route := Some \<lparr>path = ''/users/:id''\<rparr>,
            params := Some [(''id'', Some ''42'')]\<rparr>"
  have 1: "route ?rq = Some \<lparr>path = ''/users/:id''\<rparr>" by (simp add: emptyRequest_def)
  have 2: "params ?rq = Some [(''id'', Some ''42'')]" by (simp add: emptyRequest_def)
  have 3: "selectRoute ?rq = Some ''/users/:id''"
    by (simp add: selectRoute_def truthy_def emptyRequest_def)
  have 4: "\<forall>n \<in> set (map fst [(''id'', Some ''42'')]). CHR ''$'' \<notin> set n" by simp
  have 5: "placeholders [(''id'', Some ''42'')] ''/users/:id'' = ''/users/:id''"
    by (simp add: placeholders_def replaceFirst_def paramValue_def)
  show ?thesis
    using placeholder_replaces_first_occurrence [OF 1 2 3 4] 1 3 5 by simp
qed

theorem placeholder_counterexample:
  "getRoute (emptyRequest\<lparr>url := Some ''/tags/tags/related-tags'',
               route := Some \<lparr>path = ''/tags/:tag/related-tags''\<rparr>,
               params := Some [(''tag'', Some ''tags'')]\<rparr>)
     = Inr (Some ''/:tag/:tag/related-tags'')
   \<and> replaceEvery ''/tags/:tag/related-tags'' ''tags'' '':tag'' = ''/:tag/:tag/related-:tag''
   \<and> getRoute (emptyRequest\<lparr>url := Some ''/users/42'', baseUrl := Some ''/api'',
               route := Some \<lparr>path = ''/users/:id''\<rparr>,
               params := Some [(''id'', Some ''42'')]\<rparr>)
     = Inr (Some ''/api/users/:id'')
   \<and> getRoute (emptyRequest\<lparr>url := Some ''/x'', route := Some \<lparr>path = ''/x''\<rparr>,
               params := Some [(''$&'', Some ''x'')]\<rparr>)
     = Inr (Some ''/:x'')"
  by (simp add: emptyRequest_def getRoute_def selectRoute_def truthy_def string_replace_def
      paramValue_def)

section \<open>The metrics endpoint and the instrumented requests\<close>

text \<open>
  C5. A request whose URL is exactly the metrics path is answered with the text
  snapshot of the registry under the registry's content type; one whose URL is the
  metrics path followed by \<^verbatim>\<open>.json\<close> is answered with the array of metric records.
  In both cases the middleware returns without calling \<^verbatim>\<open>next\<close> and without a
  listener, so the request records no observation.
\<close>

theorem metrics_endpoint_is_served:
  "(url req = Some mroute \<longrightarrow>
      middleware P mroute req now =
        Responded [(''Content-Type'', contentType P)] (EndBody (register_metrics P))
      \<and> requestLifecycle P mroute req now downstream t1 h = (None, h))
   \<and> (url req = Some (mroute @ ''.json'') \<longrightarrow>
      middleware P mroute req now = Responded [] (JsonBody (getMetricsAsJSON P))
      \<and> requestLifecycle P mroute req now downstream t1 h = (None, h))"
  by (simp add: middleware_def requestLifecycle_def)

theorem metrics_endpoint_witness:
  "middleware \<lparr>contentType = ''text/plain; version=0.0.4; charset=utf-8'',
               register_metrics = ''app_version 1'', getMetricsAsJSON = [''app_version'']\<rparr>
      ''/metrics'' (emptyRequest\<lparr>url := Some ''/metrics''\<rparr>) 0
     = Responded [(''Content-Type'', ''text/plain; version=0.0.4; charset=utf-8'')]
         (EndBody ''app_version 1'')
   \<and> requestLifecycle \<lparr>contentType = ''text/plain; version=0.0.4; charset=utf-8'',
               register_metrics = ''app_version 1'', getMetricsAsJSON = [''app_version'']\<rparr>
      ''/metrics'' (emptyRequest\<lparr>url := Some ''/metrics''\<rparr>) 0
      (\<lambda>r. Some (r, \<lparr>statusCode = 200, res_content_length = None\<rparr>)) 1 emptyHistograms
     = (None, emptyHistograms)
   \<and> middleware \<lparr>contentType = ''text/plain; version=0.0.4; charset=utf-8'',
               register_metrics = ''app_version 1'', getMetricsAsJSON = [''app_version'']\<rparr>
      ''/metrics'' (emptyRequest\<lparr>url := Some ''/metrics.json''\<rparr>) 0
     = Responded [] (JsonBody [''app_version''])
   \<and> requestLifecycle \<lparr>contentType = ''text/plain; version=0.0.4; charset=utf-8'',
               register_metrics = ''app_version 1'', getMetricsAsJSON = [''app_version'']\<rparr>
      ''/metrics'' (emptyRequest\<lparr>url := Some ''/metrics.json''\<rparr>) 0
      (\<lambda>r. Some (r, \<lparr>statusCode = 200, res_content_length = None\<rparr>)) 1 emptyHistograms
     = (None, emptyHistograms)"
proof -
  let ?P = "\<lparr>contentType = ''text/plain; version=0.0.4; charset=utf-8'',
               register_metrics = ''app_version 1'', getMetricsAsJSON = [''app_version'']\<rparr>"
  let ?d = "\<lambda>r. Some (r, \<lparr>statusCode = 200, res_content_length = None\<rparr>)"
  have 1: "url (emptyRequest\<lparr>url := Some ''/metrics''\<rparr>) = Some ''/metrics''" by simp
  have 2: "url (emptyRequest\<lparr>url := Some ''/metrics.json''\<rparr>) = Some (''/metrics'' @ ''.json'')"
    by simp
  show ?thesis
    using metrics_endpoint_is_served [of "emptyRequest\<lparr>url := Some ''/metrics''\<rparr>" "''/metrics''"
        ?P 0 ?d 1 emptyHistograms]
      metrics_endpoint_is_served [of "emptyRequest\<lparr>url := Some ''/metrics.json''\<rparr>"
        "''/metrics''" ?P 0 ?d 1 emptyHistograms] 1 2
    by simp
qed

text \<open>
  C10. The comparison with the metrics path is equality of the whole URL: a URL that
  is the metrics path followed by more characters, other than exactly \<^verbatim>\<open>.json\<close>, is
  not answered with a snapshot. The middleware attaches \<^verbatim>\<open>req.metrics\<close> and passes
  the request on, and at the end of the request \<^verbatim>\<open>_handleResponse\<close> runs, as for any
  other request.
\<close>

theorem metrics_path_match_is_exact:
  assumes "url req = Some (mroute @ extra)" and "extra \<noteq> []" and "extra \<noteq> ''.json''"
  shows "middleware P mroute req now =
           Next (req\<lparr>metrics := Some \<lparr>timer = \<lparr>timer_method = req_method req, timer_start = now\<rparr>,
                                      contentLength = parseIntOr0 (req_content_length req)\<rparr>\<rparr>)
         \<and> requestLifecycle P mroute req now downstream t1 h =
           (case downstream
                   (req\<lparr>metrics := Some \<lparr>timer = \<lparr>timer_method = req_method req,
                                                     timer_start = now\<rparr>,
                                            contentLength = parseIntOr0 (req_content_length req)\<rparr>\<rparr>) of
              None \<Rightarrow> (None, h)
            | Some (req2, rs) \<Rightarrow> handleResponse req2 rs t1 h)"
  using assms by (simp add: middleware_def requestLifecycle_def)

theorem metrics_path_match_witness:
  "requestLifecycle \<lparr>contentType = ''text/plain'', register_metrics = ''app_version 1'',
                     getMetricsAsJSON = [''app_version'']\<rparr>
      ''/metrics'' (emptyRequest\<lparr>url := Some ''/metrics?x=1''\<rparr>) 0
      (\<lambda>r. Some (r, \<lparr>statusCode = 200, res_content_length = Some ''12''\<rparr>)) 1 emptyHistograms
     = (None, \<lparr>responseTimeHistogram =
             [(\<lparr>label_method = ''GET'', label_route = ''/metrics?x=1'', label_code = 200\<rparr>, 1)],
           requestSizeHistogram =
             [(\<lparr>label_method = ''GET'', label_route = ''/metrics?x=1'', label_code = 200\<rparr>, 0)],
           responseSizeHistogram =
             [(\<lparr>label_method = ''GET'', label_route = ''/metrics?x=1'', label_code = 200\<rparr>, 12)]\<rparr>)
   \<and> middleware \<lparr>contentType = ''text/plain'', register_metrics = ''app_version 1'',
                 getMetricsAsJSON = [''app_version'']\<rparr>
      ''/metrics'' (emptyRequest\<lparr>url := Some ''/metrics/''\<rparr>) 0
     = Next (emptyRequest\<lparr>url := Some ''/metrics/'',
               metrics := Some \<lparr>timer = \<lparr>timer_method = ''GET'', timer_start = 0\<rparr>,
                                contentLength = Num 0\<rparr>\<rparr>)"
proof -
  let ?P = "\<lparr>contentType = ''text/plain'', register_metrics = ''app_version 1'',
             getMetricsAsJSON = [''app_version'']\<rparr>"
  let ?d = "\<lambda>r. Some (r, \<lparr>statusCode = 200, res_content_length = Some ''12''\<rparr>)"
  have 1: "url (emptyRequest\<lparr>url := Some ''/metrics?x=1''\<rparr>) = Some (''/metrics'' @ ''?x=1'')"
    by simp
  have 2: "url (emptyRequest\<lparr>url := Some ''/metrics/''\<rparr>) = Some (''/metrics'' @ ''/'')"
    by simp
  have 3: "''?x=1'' \<noteq> [] \<and> ''?x=1'' \<noteq> ''.json'' \<and> ''/'' \<noteq> [] \<and> ''/'' \<noteq> ''.json''"
    by simp
  have 4: "parseIntOr0 None = Num 0" by (rule parseIntOr0_absent)
  have 5: "parseIntOr0 (Some ''12'') = Num 12"
    by (simp add: parseIntOr0_def parseInt_def isWhiteSpace_def isDigit_def digitValue_def
        digitsValue_def roundToDouble_def)
  have 6: "handleResponse
      (emptyRequest\<lparr>url := Some ''/metrics?x=1'',
         metrics := Some \<lparr>timer = \<lparr>timer_method = ''GET'', timer_start = 0\<rparr>,
                          contentLength = Num 0\<rparr>\<rparr>)
      \<lparr>statusCode = 200, res_content_length = Some ''12''\<rparr> 1 emptyHistograms
     = (None, \<lparr>responseTimeHistogram =
             [(\<lparr>label_method = ''GET'', label_route = ''/metrics?x=1'', label_code = 200\<rparr>, 1)],
           requestSizeHistogram =
             [(\<lparr>label_method = ''GET'', label_route = ''/metrics?x=1'', label_code = 200\<rparr>, 0)],
           responseSizeHistogram =
             [(\<lparr>label_method = ''GET'', label_route = ''/metrics?x=1'', label_code = 200\<rparr>, 12)]\<rparr>)"
    by (simp add: handleResponse_def getRoute_def selectRoute_def truthy_def emptyRequest_def
        emptyHistograms_def observe_def 5)
  have 7: "req_method emptyRequest = ''GET'' \<and> req_content_length emptyRequest = None"
    by (simp add: emptyRequest_def)
  show ?thesis
    using metrics_path_match_is_exact [OF 1, of ?P 0 ?d 1 emptyHistograms]
      metrics_path_match_is_exact [OF 2, of ?P 0 ?d 1 emptyHistograms] 3 4 6 7
    by simp
qed


text \<open>
  C6, as the source has it. The claim: a completed request for which the classifier
  returns a label records exactly three observations, all with the identical label
  tuple, the sizes being the \<^verbatim>\<open>content-length\<close> headers parsed as integers and 0
  when absent or non-numeric. For a request that the middleware instrumented
  (\<^verbatim>\<open>req.metrics\<close> left in place), for which the classifier returns a label (a
  non-empty string: line 108 treats the empty string like no label) and whose two
  content lengths are read as finite numbers, exactly three observations are recorded
  when the response finishes, on the request-size, the duration and the response-size
  histogram. The two sizes carry the method the request has at completion, the
  duration the method it had when the timer started (line 89); route and status code
  are the same in all three. The sizes are the headers as \<^verbatim>\<open>parseInt\<close> reads them:
  a header that is absent, has no digit or starts with a character that is neither
  white space, a sign nor a digit counts as 0, and a decimal numeral up to 2 to the
  power 53 counts as its number.
\<close>

theorem three_observations_per_request:
  assumes "middleware P mroute req0 t0 = Next req1"
    and "downstream req1 = Some (req, rs)"
    and "metrics req = metrics req1"
    and "getRoute req = Inr (Some r)" and "r \<noteq> []"
    and "parseIntOr0 (req_content_length req0) = Num a"
    and "parseIntOr0 (res_content_length rs) = Num b"
  shows "requestLifecycle P mroute req0 t0 downstream t1 h =
           (None,
            h\<lparr>requestSizeHistogram := requestSizeHistogram h @
                 [(\<lparr>label_method = req_method req, label_route = r,
                    label_code = statusCode rs\<rparr>, a)],
               responseTimeHistogram := responseTimeHistogram h @
                 [(\<lparr>label_method = req_method req0, label_route = r,
                    label_code = statusCode rs\<rparr>, t1 - t0)],
               responseSizeHistogram := responseSizeHistogram h @
                 [(\<lparr>label_method = req_method req, label_route = r,
                    label_code = statusCode rs\<rparr>, b)]\<rparr>)
         \<and> parseIntOr0 None = Num 0
         \<and> (\<forall>s. (\<forall>c \<in> set s. \<not> isDigit 10 c) \<longrightarrow> parseIntOr0 (Some s) = Num 0)
         \<and> (\<forall>c cs. \<not> isWhiteSpace c \<and> c \<noteq> CHR ''+'' \<and> c \<noteq> CHR ''-'' \<and> \<not> isDigit 10 c
                \<longrightarrow> parseIntOr0 (Some (c # cs)) = Num 0)
         \<and> (\<forall>n. n \<le> 2 ^ 53 \<longrightarrow> parseIntOr0 (Some (decimal n)) = Num (int n))"
proof -
  from assms(1) have req1: "req1 = req0\<lparr>metrics :=
      Some \<lparr>timer = \<lparr>timer_method = req_method req0, timer_start = t0\<rparr>,
            contentLength = parseIntOr0 (req_content_length req0)\<rparr>\<rparr>"
    by (simp add: middleware_def split: if_splits)
  then have m: "metrics req =
      Some \<lparr>timer = \<lparr>timer_method = req_method req0, timer_start = t0\<rparr>,
            contentLength = Num a\<rparr>"
    using assms(3,6) by simp
  have hr: "handleResponse req rs t1 h =
           (None,
            h\<lparr>requestSizeHistogram := requestSizeHistogram h @
                 [(\<lparr>label_method = req_method req, label_route = r,
                    label_code = statusCode rs\<rparr>, a)],
               responseTimeHistogram := responseTimeHistogram h @
                 [(\<lparr>label_method = req_method req0, label_route = r,
                    label_code = statusCode rs\<rparr>, t1 - t0)],
               responseSizeHistogram := responseSizeHistogram h @
                 [(\<lparr>label_method = req_method req, label_route = r,
                    label_code = statusCode rs\<rparr>, b)]\<rparr>)"
    using assms(4,5,7) m by (simp add: handleResponse_def observe_def Let_def)
  have lc: "requestLifecycle P mroute req0 t0 downstream t1 h = handleResponse req rs t1 h"
    using assms(1,2) by (simp add: requestLifecycle_def)
  have nd: "\<forall>s. (\<forall>c \<in> set s. \<not> isDigit 10 c) \<longrightarrow> parseIntOr0 (Some s) = Num 0"
    by (simp add: parseIntOr0_def parseInt_no_digit)
  have ld: "\<forall>c cs. \<not> isWhiteSpace c \<and> c \<noteq> CHR ''+'' \<and> c \<noteq> CHR ''-'' \<and> \<not> isDigit 10 c
                \<longrightarrow> parseIntOr0 (Some (c # cs)) = Num 0"
    by (simp add: parseIntOr0_def parseInt_leading_non_digit)
  have dec: "\<forall>n. n \<le> 2 ^ 53 \<longrightarrow> parseIntOr0 (Some (decimal n)) = Num (int n)"
    using parseIntOr0_decimal by blast
  from lc hr nd ld dec parseIntOr0_absent show ?thesis by simp
qed

theorem three_observations_witness:
  "middleware \<lparr>contentType = ''text/plain'', register_metrics = [], getMetricsAsJSON = [()]\<rparr>
      ''/metrics''
      (emptyRequest\<lparr>url := Some ''/orders/abc123'', req_content_length := Some ''120''\<rparr>) 5
     = Next (emptyRequest\<lparr>url := Some ''/orders/abc123'', req_content_length := Some ''120'',
               metrics := Some \<lparr>timer = \<lparr>timer_method = ''GET'', timer_start = 5\<rparr>,
                                contentLength = Num 120\<rparr>\<rparr>)
   \<and> getRoute (emptyRequest\<lparr>url := Some ''/orders/abc123'', req_content_length := Some ''120'',
               metrics := Some \<lparr>timer = \<lparr>timer_method = ''GET'', timer_start = 5\<rparr>,
                                contentLength = Num 120\<rparr>,
               route := Some \<lparr>path = ''/orders/:orderId''\<rparr>,
               params := Some [(''orderId'', Some ''abc123'')]\<rparr>)
     = Inr (Some ''/orders/:orderId'')
   \<and> requestLifecycle
        \<lparr>contentType = ''text/plain'', register_metrics = [], getMetricsAsJSON = [()]\<rparr>
        ''/metrics''
        (emptyRequest\<lparr>url := Some ''/orders/abc123'', req_content_length := Some ''120''\<rparr>) 5
        (\<lambda>q. Some (q\<lparr>route := Some \<lparr>path = ''/orders/:orderId''\<rparr>,
                       params := Some [(''orderId'', Some ''abc123'')]\<rparr>,
                    \<lparr>statusCode = 200, res_content_length = Some ''340''\<rparr>))
        7 emptyHistograms
     = (None,
        \<lparr>responseTimeHistogram =
           [(\<lparr>label_method = ''GET'', label_route = ''/orders/:orderId'', label_code = 200\<rparr>,
             2)],
         requestSizeHistogram =
           [(\<lparr>label_method = ''GET'', label_route = ''/orders/:orderId'', label_code = 200\<rparr>,
             120)],
         responseSizeHistogram =
           [(\<lparr>label_method = ''GET'', label_route = ''/orders/:orderId'', label_code = 200\<rparr>,
             340)]\<rparr>)"
proof -
  let ?P = "\<lparr>contentType = ''text/plain'', register_metrics = [], getMetricsAsJSON = [()]\<rparr>"
  let ?r0 = "emptyRequest\<lparr>url := Some ''/orders/abc123'', req_content_length := Some ''120''\<rparr>"
  let ?r1 = "emptyRequest\<lparr>url := Some ''/orders/abc123'', req_content_length := Some ''120'',
               metrics := Some \<lparr>timer = \<lparr>timer_method = ''GET'', timer_start = 5\<rparr>,
                                contentLength = Num 120\<rparr>\<rparr>"
  let ?rq = "emptyRequest\<lparr>url := Some ''/orders/abc123'', req_content_length := Some ''120'',
               metrics := Some \<lparr>timer = \<lparr>timer_method = ''GET'', timer_start = 5\<rparr>,
                                contentLength = Num 120\<rparr>,
               route := Some \<lparr>path = ''/orders/:orderId''\<rparr>,
               params := Some [(''orderId'', Some ''abc123'')]\<rparr>"
  let ?rs = "\<lparr>statusCode = 200, res_content_length = Some ''340''\<rparr>"
  let ?d = "\<lambda>q. Some (q\<lparr>route := Some \<lparr>path = ''/orders/:orderId''\<rparr>,
                       params := Some [(''orderId'', Some ''abc123'')]\<rparr>, ?rs)"
  have p120: "parseIntOr0 (Some ''120'') = Num 120"
    by (simp add: parseIntOr0_def parseInt_def isWhiteSpace_def isDigit_def digitValue_def
        digitsValue_def roundToDouble_def)
  have p340: "parseIntOr0 (Some ''340'') = Num 340"
    by (simp add: parseIntOr0_def parseInt_def isWhiteSpace_def isDigit_def digitValue_def
        digitsValue_def roundToDouble_def)
  have 1: "middleware ?P ''/metrics'' ?r0 5 = Next ?r1"
    by (simp add: middleware_def emptyRequest_def p120)
  have 2: "?d ?r1 = Some (?rq, ?rs)" by simp
  have 3: "metrics ?rq = metrics ?r1" by simp
  have 5: "getRoute ?rq = Inr (Some ''/orders/:orderId'')"
    by (simp add: getRoute_def selectRoute_def truthy_def emptyRequest_def string_replace_def
        paramValue_def)
  have 6: "''/orders/:orderId'' \<noteq> []" by simp
  have 7: "req_method ?rq = ''GET'' \<and> req_method ?r0 = ''GET''" by (simp add: emptyRequest_def)
  have 8: "parseIntOr0 (req_content_length ?r0) = Num 120" by (simp add: p120)
  have 9: "parseIntOr0 (res_content_length ?rs) = Num 340" by (simp add: p340)
  show ?thesis
    using three_observations_per_request [where P = ?P and mroute = "''/metrics''"
        and ?req0.0 = ?r0 and ?t0.0 = 5 and ?req1.0 = ?r1 and downstream = ?d and req = ?rq
        and rs = ?rs and r = "''/orders/:orderId''" and a = 120 and b = 340 and ?t1.0 = 7
        and h = emptyHistograms, OF 1 2 3 5 6 8 9, THEN conjunct1]
      1 5 7
    by (simp add: emptyHistograms_def)
qed

theorem three_observations_counterexample:
  "handleResponse (emptyRequest\<lparr>req_method := ''PUT'', url := Some ''/items'',
               metrics := Some \<lparr>timer = \<lparr>timer_method = ''POST'', timer_start = 0\<rparr>,
                                contentLength = Num 12\<rparr>\<rparr>)
        \<lparr>statusCode = 200, res_content_length = Some ''5''\<rparr> 1 emptyHistograms
       = (None,
          \<lparr>responseTimeHistogram =
             [(\<lparr>label_method = ''POST'', label_route = ''/items'', label_code = 200\<rparr>, 1)],
           requestSizeHistogram =
             [(\<lparr>label_method = ''PUT'', label_route = ''/items'', label_code = 200\<rparr>, 12)],
           responseSizeHistogram =
             [(\<lparr>label_method = ''PUT'', label_route = ''/items'', label_code = 200\<rparr>, 5)]\<rparr>)
   \<and> parseIntOr0 (Some ''9007199254740993'') = Num 9007199254740992
   \<and> handleResponse (emptyRequest\<lparr>url := Some ''/items'',
               metrics := Some \<lparr>timer = \<lparr>timer_method = ''GET'', timer_start = 0\<rparr>,
                                contentLength = Num 12\<rparr>\<rparr>)
        \<lparr>statusCode = 200, res_content_length = Some (replicate 310 CHR ''9'')\<rparr> 1
        emptyHistograms
       = (Some TypeError,
          \<lparr>responseTimeHistogram =
             [(\<lparr>label_method = ''GET'', label_route = ''/items'', label_code = 200\<rparr>, 1)],
           requestSizeHistogram =
             [(\<lparr>label_method = ''GET'', label_route = ''/items'', label_code = 200\<rparr>, 12)],
           responseSizeHistogram = []\<rparr>)"
proof -
  have a: "getRoute (emptyRequest\<lparr>req_method := ''PUT'', url := Some ''/items'',
               metrics := Some \<lparr>timer = \<lparr>timer_method = ''POST'', timer_start = 0\<rparr>,
                                contentLength = Num 12\<rparr>\<rparr>) = Inr (Some ''/items'')"
    by (simp add: emptyRequest_def getRoute_def selectRoute_def truthy_def)
  have c: "getRoute (emptyRequest\<lparr>url := Some ''/items'',
               metrics := Some \<lparr>timer = \<lparr>timer_method = ''GET'', timer_start = 0\<rparr>,
                                contentLength = Num 12\<rparr>\<rparr>) = Inr (Some ''/items'')"
    by (simp add: emptyRequest_def getRoute_def selectRoute_def truthy_def)
  have p5: "parseIntOr0 (Some ''5'') = Num 5"
    by (simp add: parseIntOr0_def parseInt_def isWhiteSpace_def isDigit_def digitValue_def
        digitsValue_def roundToDouble_def)
  have big: "parseIntOr0 (Some ''9007199254740993'') = Num 9007199254740992"
    by (simp add: parseIntOr0_def parseInt_def isWhiteSpace_def isDigit_def digitValue_def
        digitsValue_def roundToDouble_def bitLength.simps Let_def)
  show ?thesis
    unfolding handleResponse_def a c Let_def response.simps parseIntOr0_310_nines p5 big
    by (simp add: observe_def emptyHistograms_def emptyRequest_def)
qed

text \<open>
  C4, as the source has it. The claim: on every combination of present and absent
  base path, raw URL, matched route, alternate descriptor and parameter mapping, the
  classifier and the recording at completion never throw. The source catches no
  exception, and some requests make it throw. It does not throw under two conditions.
  First, lines 118 to 130 select a label or there is no parameter name; no label is
  selected exactly when the alternate descriptor is present without a path pattern,
  or there is no descriptor, \<^verbatim>\<open>req.baseUrl\<close> is undefined and the raw URL is absent
  or empty. On every such request the classifier returns. Second, the request was
  instrumented by the middleware, \<^verbatim>\<open>req.metrics\<close> was left in place, and both content
  lengths are read as finite numbers. Then the recording at completion returns without
  an exception.
\<close>

theorem completion_does_not_throw:
  "(selectRoute req = None) =
     (case swagger req of
        Some sw \<Rightarrow> apiPath sw = None
      | None \<Rightarrow> baseUrl req = None \<and> \<not> truthy (url req))
   \<and> (selectRoute req \<noteq> None \<or> paramNames req = [] \<longrightarrow> (\<exists>l. getRoute req = Inr l))
   \<and> (middleware P mroute req0 t0 = Next req1 \<and> downstream req1 = Some (req, rs)
        \<and> metrics req = metrics req1
        \<and> (selectRoute req \<noteq> None \<or> paramNames req = [])
        \<and> parseIntOr0 (req_content_length req0) = Num a
        \<and> parseIntOr0 (res_content_length rs) = Num b
       \<longrightarrow> fst (requestLifecycle P mroute req0 t0 downstream t1 h) = None)"
proof -
  have total: "selectRoute req \<noteq> None \<or> paramNames req = [] \<longrightarrow> (\<exists>l. getRoute req = Inr l)"
    by (auto simp: getRoute_eq)
  have quiet: "fst (requestLifecycle P mroute req0 t0 downstream t1 h) = None"
    if mw: "middleware P mroute req0 t0 = Next req1"
      and down: "downstream req1 = Some (req, rs)"
      and kept: "metrics req = metrics req1"
      and sel: "selectRoute req \<noteq> None \<or> paramNames req = []"
      and a: "parseIntOr0 (req_content_length req0) = Num a"
      and b: "parseIntOr0 (res_content_length rs) = Num b"
  proof -
    from mw have "req1 = req0\<lparr>metrics :=
        Some \<lparr>timer = \<lparr>timer_method = req_method req0, timer_start = t0\<rparr>,
              contentLength = parseIntOr0 (req_content_length req0)\<rparr>\<rparr>"
      by (simp add: middleware_def split: if_splits)
    with kept a have m: "metrics req =
        Some \<lparr>timer = \<lparr>timer_method = req_method req0, timer_start = t0\<rparr>,
              contentLength = Num a\<rparr>"
      by simp
    from sel total obtain l where l: "getRoute req = Inr l" by blast
    have "fst (handleResponse req rs t1 h) = None"
      by (cases l) (simp_all add: handleResponse_def l m b observe_def Let_def)
    with mw down show ?thesis
      by (simp add: requestLifecycle_def)
  qed
  from total quiet selectRoute_undefined [of req] show ?thesis by blast
qed

theorem completion_does_not_throw_witness:
  "selectRoute (emptyRequest\<lparr>url := Some ''/users/42'', req_content_length := Some ''17'',
       metrics := Some \<lparr>timer = \<lparr>timer_method = ''GET'', timer_start = 5\<rparr>,
                        contentLength = Num 17\<rparr>,
       baseUrl := Some [], route := Some \<lparr>path = ''/users/:id''\<rparr>,
       params := Some [(''id'', Some ''42'')]\<rparr>) = Some ''/users/:id''
   \<and> getRoute (emptyRequest\<lparr>url := Some ''/users/42'', req_content_length := Some ''17'',
       metrics := Some \<lparr>timer = \<lparr>timer_method = ''GET'', timer_start = 5\<rparr>,
                        contentLength = Num 17\<rparr>,
       baseUrl := Some [], route := Some \<lparr>path = ''/users/:id''\<rparr>,
       params := Some [(''id'', Some ''42'')]\<rparr>) = Inr (Some ''/users/:id'')
   \<and> fst (requestLifecycle
        \<lparr>contentType = ''text/plain'', register_metrics = [], getMetricsAsJSON = [()]\<rparr>
        ''/metrics''
        (emptyRequest\<lparr>url := Some ''/users/42'', req_content_length := Some ''17''\<rparr>) 5
        (\<lambda>q. Some (q\<lparr>baseUrl := Some [], route := Some \<lparr>path = ''/users/:id''\<rparr>,
                       params := Some [(''id'', Some ''42'')]\<rparr>,
                    \<lparr>statusCode = 200, res_content_length = Some ''340''\<rparr>))
        7 emptyHistograms) = None"
proof -
  let ?P = "\<lparr>contentType = ''text/plain'', register_metrics = [], getMetricsAsJSON = [()]\<rparr>"
  let ?r0 = "emptyRequest\<lparr>url := Some ''/users/42'', req_content_length := Some ''17''\<rparr>"
  let ?r1 = "emptyRequest\<lparr>url := Some ''/users/42'', req_content_length := Some ''17'',
       metrics := Some \<lparr>timer = \<lparr>timer_method = ''GET'', timer_start = 5\<rparr>,
                        contentLength = Num 17\<rparr>\<rparr>"
  let ?rq = "emptyRequest\<lparr>url := Some ''/users/42'', req_content_length := Some ''17'',
       metrics := Some \<lparr>timer = \<lparr>timer_method = ''GET'', timer_start = 5\<rparr>,
                        contentLength = Num 17\<rparr>,
       baseUrl := Some [], route := Some \<lparr>path = ''/users/:id''\<rparr>,
       params := Some [(''id'', Some ''42'')]\<rparr>"
  let ?rs = "\<lparr>statusCode = 200, res_content_length = Some ''340''\<rparr>"
  let ?d = "\<lambda>q. Some (q\<lparr>baseUrl := Some [], route := Some \<lparr>path = ''/users/:id''\<rparr>,
                       params := Some [(''id'', Some ''42'')]\<rparr>, ?rs)"
  have p17: "parseIntOr0 (Some ''17'') = Num 17"
    by (simp add: parseIntOr0_def parseInt_def isWhiteSpace_def isDigit_def digitValue_def
        digitsValue_def roundToDouble_def)
  have p340: "parseIntOr0 (Some ''340'') = Num 340"
    by (simp add: parseIntOr0_def parseInt_def isWhiteSpace_def isDigit_def digitValue_def
        digitsValue_def roundToDouble_def)
  have 1: "middleware ?P ''/metrics'' ?r0 5 = Next ?r1"
    by (simp add: middleware_def emptyRequest_def p17)
  have 2: "?d ?r1 = Some (?rq, ?rs)" by simp
  have 3: "metrics ?rq = metrics ?r1" by simp
  have 4: "selectRoute ?rq = Some ''/users/:id''"
    by (simp add: selectRoute_def truthy_def emptyRequest_def)
  have 5: "parseIntOr0 (req_content_length ?r0) = Num 17" by (simp add: p17)
  have 6: "parseIntOr0 (res_content_length ?rs) = Num 340" by (simp add: p340)
  have 7: "getRoute ?rq = Inr (Some ''/users/:id'')"
    by (simp add: getRoute_def selectRoute_def truthy_def emptyRequest_def string_replace_def
        paramValue_def)
  show ?thesis
    using completion_does_not_throw [where req = ?rq and P = ?P and mroute = "''/metrics''"
        and ?req0.0 = ?r0 and ?t0.0 = 5 and ?req1.0 = ?r1 and downstream = ?d and rs = ?rs
        and a = 17 and b = 340 and ?t1.0 = 7 and h = emptyHistograms]
      1 3 4 5 6 7
    by simp
qed

theorem completion_throws_counterexample:
  "getRoute (emptyRequest\<lparr>url := Some ''/users/42'', baseUrl := Some [],
               route := Some \<lparr>path = ''/users/:id''\<rparr>, swagger := Some \<lparr>apiPath = None\<rparr>,
               params := Some [(''id'', Some ''42'')],
               metrics := Some \<lparr>timer = \<lparr>timer_method = ''GET'', timer_start = 0\<rparr>,
                                contentLength = Num 0\<rparr>\<rparr>) = Inl TypeError
   \<and> handleResponse (emptyRequest\<lparr>url := Some ''/users/42'', baseUrl := Some [],
               route := Some \<lparr>path = ''/users/:id''\<rparr>, swagger := Some \<lparr>apiPath = None\<rparr>,
               params := Some [(''id'', Some ''42'')],
               metrics := Some \<lparr>timer = \<lparr>timer_method = ''GET'', timer_start = 0\<rparr>,
                                contentLength = Num 0\<rparr>\<rparr>)
        \<lparr>statusCode = 200, res_content_length = None\<rparr> 1 emptyHistograms
       = (Some TypeError, emptyHistograms)
   \<and> getRoute (emptyRequest\<lparr>params := Some [(''id'', Some ''42'')]\<rparr>) = Inl TypeError
   \<and> handleResponse (emptyRequest\<lparr>url := Some ''/items'',
               metrics := Some \<lparr>timer = \<lparr>timer_method = ''GET'', timer_start = 0\<rparr>,
                                contentLength = Num 12\<rparr>\<rparr>)
        \<lparr>statusCode = 200, res_content_length = Some (replicate 310 CHR ''9'')\<rparr> 1
        emptyHistograms
       = (Some TypeError,
          \<lparr>responseTimeHistogram =
             [(\<lparr>label_method = ''GET'', label_route = ''/items'', label_code = 200\<rparr>, 1)],
           requestSizeHistogram =
             [(\<lparr>label_method = ''GET'', label_route = ''/items'', label_code = 200\<rparr>, 12)],
           responseSizeHistogram = []\<rparr>)"
proof -
  have a: "getRoute (emptyRequest\<lparr>url := Some ''/users/42'', baseUrl := Some [],
               route := Some \<lparr>path = ''/users/:id''\<rparr>, swagger := Some \<lparr>apiPath = None\<rparr>,
               params := Some [(''id'', Some ''42'')],
               metrics := Some \<lparr>timer = \<lparr>timer_method = ''GET'', timer_start = 0\<rparr>,
                                contentLength = Num 0\<rparr>\<rparr>) = Inl TypeError"
    by (simp add: emptyRequest_def getRoute_def selectRoute_def)
  have b: "getRoute (emptyRequest\<lparr>params := Some [(''id'', Some ''42'')]\<rparr>) = Inl TypeError"
    by (simp add: emptyRequest_def getRoute_def selectRoute_def truthy_def)
  have c: "getRoute (emptyRequest\<lparr>url := Some ''/items'',
               metrics := Some \<lparr>timer = \<lparr>timer_method = ''GET'', timer_start = 0\<rparr>,
                                contentLength = Num 12\<rparr>\<rparr>) = Inr (Some ''/items'')"
    by (simp add: emptyRequest_def getRoute_def selectRoute_def truthy_def)
  show ?thesis
    unfolding handleResponse_def a b c Let_def response.simps parseIntOr0_310_nines
    by (simp add: parseIntOr0_absent observe_def emptyHistograms_def emptyRequest_def)
qed

section \<open>The factory called twice\<close>

text \<open>
  Without the prefix option a second call of the factory finds all four metrics and
  leaves the module and the registry exactly as the first call left them; the
  registry's refusal of a duplicate is never met.
\<close>

lemma getOrCreate_returns: "\<exists>reg'. getOrCreate m reg = Inr reg'"
  by (simp add: getOrCreate_cases)

lemma module_exports_again_plain:
  assumes "\<not> useUniqueHistogramName opts" and "module_exports pk opts st = Inr st1"
  shows "module_exports pk opts st1 = Inr st1"
proof -
  let ?ns = "metricNames st"
  obtain reg1 where r1: "getOrCreate (versionGauge pk ?ns) (register st) = Inr reg1"
    using getOrCreate_returns by blast
  obtain reg2 where r2: "getOrCreate (durationHistogram opts ?ns) reg1 = Inr reg2"
    using getOrCreate_returns by blast
  obtain reg3 where r3: "getOrCreate (requestSizeMetric opts ?ns) reg2 = Inr reg3"
    using getOrCreate_returns by blast
  obtain reg4 where r4: "getOrCreate (responseSizeMetric opts ?ns) reg3 = Inr reg4"
    using getOrCreate_returns by blast
  from assms r1 r2 r3 r4 have st1:
    "st1 = st\<lparr>metricsRoute := Some (if truthy (metricsPath opts)
                                     then (case metricsPath opts of Some p \<Rightarrow> p | None \<Rightarrow> [])
                                     else ''/metrics''),
              metricNames := ?ns,
              metricsInterval := Some (defaultMetricsInterval opts, defaultMetricsPrefix ?ns),
              register := reg4,
              var_responseTimeHistogram := Some (http_request_duration_seconds ?ns),
              var_requestSizeHistogram := Some (http_request_size_bytes ?ns),
              var_responseSizeHistogram := Some (http_response_size_bytes ?ns),
              onExitEvent := True\<rparr>"
    by (simp add: module_exports_def Let_def)
  have f1: "getSingleMetric reg4 (metric_name (versionGauge pk ?ns)) \<noteq> None"
    using getOrCreate_found [OF r1] getOrCreate_keeps [OF r2] getOrCreate_keeps [OF r3]
      getOrCreate_keeps [OF r4] by blast
  have f2: "getSingleMetric reg4 (metric_name (durationHistogram opts ?ns)) \<noteq> None"
    using getOrCreate_found [OF r2] getOrCreate_keeps [OF r3] getOrCreate_keeps [OF r4]
    by blast
  have f3: "getSingleMetric reg4 (metric_name (requestSizeMetric opts ?ns)) \<noteq> None"
    using getOrCreate_found [OF r3] getOrCreate_keeps [OF r4] by blast
  have f4: "getSingleMetric reg4 (metric_name (responseSizeMetric opts ?ns)) \<noteq> None"
    using getOrCreate_found [OF r4] by blast
  show ?thesis
    using assms(1) getOrCreate_reuse [OF f1] getOrCreate_reuse [OF f2]
      getOrCreate_reuse [OF f3] getOrCreate_reuse [OF f4]
    by (simp add: module_exports_def Let_def st1)
qed


text \<open>
  A call of the factory whose four names are distinct and not in the registry appends
  the four metrics, in the order of lines 37 to 68.
\<close>

lemma metric_names_of_constructors:
  "metric_name (versionGauge pk ns) = app_version ns"
  "metric_name (durationHistogram opts ns) = http_request_duration_seconds ns"
  "metric_name (requestSizeMetric opts ns) = http_request_size_bytes ns"
  "metric_name (responseSizeMetric opts ns) = http_response_size_bytes ns"
  by (simp_all add: versionGauge_def durationHistogram_def requestSizeMetric_def
      responseSizeMetric_def Let_def)

lemma getSingleMetric_app:
  "getSingleMetric (reg @ ms) n =
     (case getSingleMetric reg n of Some x \<Rightarrow> Some x | None \<Rightarrow> getSingleMetric ms n)"
  by (induction reg) (simp_all add: getSingleMetric_def)

lemma getSingleMetric_list:
  "getSingleMetric [] n = None"
  "getSingleMetric (m # ms) n = (if metric_name m = n then Some m else getSingleMetric ms n)"
  by (simp_all add: getSingleMetric_def)

lemma module_exports_registers_fresh_names:
  assumes ns: "ns = (if useUniqueHistogramName opts
                     then prefixNames (projectName pk) (metricNames st) else metricNames st)"
    and fresh: "getSingleMetric (register st) (app_version ns) = None"
      "getSingleMetric (register st) (http_request_duration_seconds ns) = None"
      "getSingleMetric (register st) (http_request_size_bytes ns) = None"
      "getSingleMetric (register st) (http_response_size_bytes ns) = None"
    and dist: "distinct [app_version ns, http_request_duration_seconds ns,
                         http_request_size_bytes ns, http_response_size_bytes ns]"
  shows "\<exists>st'. module_exports pk opts st = Inr st' \<and> metricNames st' = ns
           \<and> register st' =
               register st @ [versionGauge pk ns, durationHistogram opts ns,
                              requestSizeMetric opts ns, responseSizeMetric opts ns]"
proof -
  let ?r1 = "register st @ [versionGauge pk ns]"
  let ?r2 = "register st @ [versionGauge pk ns, durationHistogram opts ns]"
  let ?r3 = "register st @ [versionGauge pk ns, durationHistogram opts ns,
                            requestSizeMetric opts ns]"
  let ?r4 = "register st @ [versionGauge pk ns, durationHistogram opts ns,
                            requestSizeMetric opts ns, responseSizeMetric opts ns]"
  have 1: "getOrCreate (versionGauge pk ns) (register st) = Inr ?r1"
    using fresh by (simp add: getOrCreate_cases metric_names_of_constructors)
  have 2: "getOrCreate (durationHistogram opts ns) ?r1 = Inr ?r2"
    using fresh dist
    by (simp add: getOrCreate_cases metric_names_of_constructors getSingleMetric_app
        getSingleMetric_list)
  have 3: "getOrCreate (requestSizeMetric opts ns) ?r2 = Inr ?r3"
    using fresh dist
    by (simp add: getOrCreate_cases metric_names_of_constructors getSingleMetric_app
        getSingleMetric_list)
  have 4: "getOrCreate (responseSizeMetric opts ns) ?r3 = Inr ?r4"
    using fresh dist
    by (simp add: getOrCreate_cases metric_names_of_constructors getSingleMetric_app
        getSingleMetric_list)
  show ?thesis
    unfolding module_exports_def Let_def ns [symmetric]
    by (simp add: 1 2 3 4)
qed

text \<open>
  C3, where the source fails it. The claim: two calls of the factory with the same
  options leave exactly one metric per declared name, the second call reusing the
  definitions of the first, for every options value, \<^verbatim>\<open>useUniqueHistogramName: true\<close>
  included. With that option the names in \<^verbatim>\<open>metricNames\<close> are prefixed in place at
  every call, so the second call looks up names prefixed twice, finds none and
  registers four more metrics: for the package \<^verbatim>\<open>my-app\<close> the registry holds four
  metrics after the first call and eight after the second.
\<close>

theorem unique_names_are_prefixed_again:
  "registeredNames
     (module_exports \<lparr>pkg_name = ''my-app'', pkg_version = ''1.0.0''\<rparr>
        \<lparr>metricsPath = None, defaultMetricsInterval = None, durationBuckets = None,
         requestSizeBuckets = None, responseSizeBuckets = None,
         useUniqueHistogramName = True\<rparr> initial_state)
     = Inr [''my_app_app_version'', ''my_app_http_request_duration_seconds'',
            ''my_app_http_request_size_bytes'', ''my_app_http_response_size_bytes'']
   \<and> registeredNames
     (module_exports_twice \<lparr>pkg_name = ''my-app'', pkg_version = ''1.0.0''\<rparr>
        \<lparr>metricsPath = None, defaultMetricsInterval = None, durationBuckets = None,
         requestSizeBuckets = None, responseSizeBuckets = None,
         useUniqueHistogramName = True\<rparr> initial_state)
     = Inr [''my_app_app_version'', ''my_app_http_request_duration_seconds'',
            ''my_app_http_request_size_bytes'', ''my_app_http_response_size_bytes'',
            ''my_app_my_app_app_version'', ''my_app_my_app_http_request_duration_seconds'',
            ''my_app_my_app_http_request_size_bytes'',
            ''my_app_my_app_http_response_size_bytes'']"
proof -
  let ?pk = "\<lparr>pkg_name = ''my-app'', pkg_version = ''1.0.0''\<rparr>"
  let ?op = "\<lparr>metricsPath = None, defaultMetricsInterval = None, durationBuckets = None,
         requestSizeBuckets = None, responseSizeBuckets = None,
         useUniqueHistogramName = True\<rparr>"
  define n1 where "n1 = prefixNames (projectName ?pk) (metricNames initial_state)"
  define n2 where "n2 = prefixNames (projectName ?pk) n1"
  have v1: "app_version n1 = ''my_app_app_version''"
    "http_request_duration_seconds n1 = ''my_app_http_request_duration_seconds''"
    "http_request_size_bytes n1 = ''my_app_http_request_size_bytes''"
    "http_response_size_bytes n1 = ''my_app_http_response_size_bytes''"
    by (simp_all add: n1_def prefixNames_def projectName_def initial_state_def)
  have v2: "app_version n2 = ''my_app_my_app_app_version''"
    "http_request_duration_seconds n2 = ''my_app_my_app_http_request_duration_seconds''"
    "http_request_size_bytes n2 = ''my_app_my_app_http_request_size_bytes''"
    "http_response_size_bytes n2 = ''my_app_my_app_http_response_size_bytes''"
    by (simp_all add: n2_def prefixNames_def projectName_def v1)
  have e1: "n1 = (if useUniqueHistogramName ?op
                  then prefixNames (projectName ?pk) (metricNames initial_state)
                  else metricNames initial_state)"
    by (simp add: n1_def)
  have r0: "register initial_state = []" by (simp add: initial_state_def)
  have "\<exists>st'. module_exports ?pk ?op initial_state = Inr st' \<and> metricNames st' = n1
           \<and> register st' =
               register initial_state @ [versionGauge ?pk n1, durationHistogram ?op n1,
                              requestSizeMetric ?op n1, responseSizeMetric ?op n1]"
    by (rule module_exports_registers_fresh_names [OF e1])
       (simp_all add: r0 getSingleMetric_list v1)
  then obtain s1 where s1: "module_exports ?pk ?op initial_state = Inr s1"
    and m1: "metricNames s1 = n1"
    and g1: "register s1 = [versionGauge ?pk n1, durationHistogram ?op n1,
                            requestSizeMetric ?op n1, responseSizeMetric ?op n1]"
    using r0 by auto
  have e2: "n2 = (if useUniqueHistogramName ?op
                  then prefixNames (projectName ?pk) (metricNames s1) else metricNames s1)"
    by (simp add: n2_def m1)
  have "\<exists>st'. module_exports ?pk ?op s1 = Inr st' \<and> metricNames st' = n2
           \<and> register st' =
               register s1 @ [versionGauge ?pk n2, durationHistogram ?op n2,
                              requestSizeMetric ?op n2, responseSizeMetric ?op n2]"
    by (rule module_exports_registers_fresh_names [OF e2])
       (simp_all add: g1 getSingleMetric_list metric_names_of_constructors v1 v2)
  then obtain s2 where s2: "module_exports ?pk ?op s1 = Inr s2"
    and g2: "register s2 = register s1 @ [versionGauge ?pk n2, durationHistogram ?op n2,
                              requestSizeMetric ?op n2, responseSizeMetric ?op n2]"
    by auto
  have a: "registeredNames (module_exports ?pk ?op initial_state) =
      Inr [''my_app_app_version'', ''my_app_http_request_duration_seconds'',
           ''my_app_http_request_size_bytes'', ''my_app_http_response_size_bytes'']"
    by (simp add: registeredNames_def s1 g1 metric_names_of_constructors v1)
  have b: "registeredNames (module_exports_twice ?pk ?op initial_state) =
      Inr [''my_app_app_version'', ''my_app_http_request_duration_seconds'',
            ''my_app_http_request_size_bytes'', ''my_app_http_response_size_bytes'',
            ''my_app_my_app_app_version'', ''my_app_my_app_http_request_duration_seconds'',
            ''my_app_my_app_http_request_size_bytes'',
            ''my_app_my_app_http_response_size_bytes'']"
    by (simp add: registeredNames_def module_exports_twice_def s1 s2 g2 g1
        metric_names_of_constructors v1 v2)
  from a b show ?thesis by simp
qed


end
